theory Spec2Isabelle
  imports Main "HOL-Library.Word"
begin

section \<open>JavaScript values used by the chat script\<close>

text \<open>
  A JavaScript string is a sequence of 16-bit code units. String literals of the script
  are written with \<open>str\<close>, which maps each character of an ASCII literal to its code unit.
\<close>

type_synonym jsstring = "16 word list"

definition str :: "string \<Rightarrow> jsstring" where
  "str s = map of_char s"

text \<open>
  \<open>String.prototype.trim\<close> removes the code units that are WhiteSpace or LineTerminator
  in ECMAScript from both ends: TAB, LF, VT, FF, CR, SPACE, NBSP, U+1680, U+2000 to U+200A,
  U+2028, U+2029, U+202F, U+205F, U+3000 and U+FEFF.
\<close>

definition is_white_space :: "16 word \<Rightarrow> bool" where
  "is_white_space c \<longleftrightarrow>
     c = 0x9 \<or> c = 0xA \<or> c = 0xB \<or> c = 0xC \<or> c = 0xD \<or> c = 0x20 \<or> c = 0xA0 \<or>
     c = 0x1680 \<or> (0x2000 \<le> c \<and> c \<le> 0x200A) \<or> c = 0x2028 \<or> c = 0x2029 \<or>
     c = 0x202F \<or> c = 0x205F \<or> c = 0x3000 \<or> c = 0xFEFF"

definition trim :: "jsstring \<Rightarrow> jsstring" where
  "trim s = rev (dropWhile is_white_space (rev (dropWhile is_white_space s)))"

text \<open>\<^verbatim>\<open>text.replace(/\n/g, '<br>')\<close>: every line feed becomes the four code units of \<^verbatim>\<open><br>\<close>.\<close>

definition replace_newlines :: "jsstring \<Rightarrow> jsstring" where
  "replace_newlines s = concat (map (\<lambda>c. if c = 0xA then str ''<br>'' else [c]) s)"

text \<open>
  A property that may be missing is an \<open>option\<close>: \<open>None\<close> is \<^verbatim>\<open>undefined\<close>. Interpolating
  it into a template literal gives the text \<^verbatim>\<open>undefined\<close>; the empty string is falsy.
\<close>

definition to_string :: "jsstring option \<Rightarrow> jsstring" where
  "to_string v = (case v of None \<Rightarrow> str ''undefined'' | Some s \<Rightarrow> s)"

definition truthy :: "jsstring option \<Rightarrow> bool" where
  "truthy v = (case v of None \<Rightarrow> False | Some s \<Rightarrow> s \<noteq> [])"

text \<open>
  The script only interpolates numbers into text and tests them for truthiness. A Number is
  therefore represented by the text \<^verbatim>\<open>Number.prototype.toString\<close> prints for it, which
  determines it: \<^verbatim>\<open>5\<close> is \<open>Number (str ''5'')\<close>, \<^verbatim>\<open>4.5\<close> is \<open>Number (str ''4.5'')\<close>. The falsy
  numbers are the zeros, printed \<^verbatim>\<open>0\<close>, and NaN.
\<close>

datatype jsnumber = Number (num_text: jsstring)

definition number_to_string :: "jsnumber option \<Rightarrow> jsstring" where
  "number_to_string v = (case v of None \<Rightarrow> str ''undefined'' | Some n \<Rightarrow> num_text n)"

definition truthy_number :: "jsnumber option \<Rightarrow> bool" where
  "truthy_number v =
     (case v of None \<Rightarrow> False | Some n \<Rightarrow> num_text n \<noteq> str ''0'' \<and> num_text n \<noteq> str ''NaN'')"

datatype error = TypeError | FetchRejected | BodyNotJSON

section \<open>Response bodies\<close>

text \<open>
  The decoded body \<^verbatim>\<open>data\<close> of a response, at the types of the interface: every field may
  be missing, and a field that is there holds a value of its documented type. JSON of any
  other shape is outside this model.
\<close>

record book =
  title :: "jsstring option"
  author :: "jsstring option"
  genre :: "jsstring option"
  rating :: "jsnumber option"

record data =
  data_text :: "jsstring option"
  data_type :: "jsstring option"
  data_books :: "book list option"
  data_suggestions :: "jsstring list option"

text \<open>
  What \<^verbatim>\<open>fetch(...)\<close> followed by \<^verbatim>\<open>response.json()\<close> can give: the fetch rejects (no response
  at all), or it resolves with a response of some HTTP status whose body either is not JSON
  (\<^verbatim>\<open>response.json()\<close> rejects) or decodes to \<^verbatim>\<open>data\<close>.
\<close>

datatype outcome = Rejected | Responded nat "data option"

section \<open>The page\<close>

text \<open>
  An element carries the properties the script assigns to it and its child elements.
  \<open>innerHTML\<close> and \<open>textContent\<close> hold the text as assigned. A click handler is the closure
  \<^verbatim>\<open>() => { messageInput.value = suggestion; sendMessage(); }\<close> with its captured label.
\<close>

datatype handler = ChipClick jsstring

record props =
  tagName :: jsstring
  className :: jsstring
  elem_id :: jsstring
  innerHTML :: jsstring
  textContent :: jsstring
  onclick :: "handler option"

datatype element = Element (props: props) (children: "element list")

definition createElement :: "jsstring \<Rightarrow> element" where
  "createElement tag =
     Element \<lparr>tagName = tag, className = [], elem_id = [], innerHTML = [], textContent = [],
       onclick = None\<rparr> []"

definition set_props :: "(props \<Rightarrow> props) \<Rightarrow> element \<Rightarrow> element" where
  "set_props f e = Element (f (props e)) (children e)"

definition appendChild :: "element \<Rightarrow> element \<Rightarrow> element" where
  "appendChild parent child = Element (props parent) (children parent @ [child])"

text \<open>
  Assigning markup to \<^verbatim>\<open>innerHTML\<close> makes the browser parse it: the elements it finds replace
  the children of the element. The markup that \<^verbatim>\<open>addMessage\<close> assigns holds text of the user or
  of the server, so what the browser finds there depends on that text; its parser, from a
  markup to the elements at the top of the parsed fragment (each with its own children), is a
  parameter of every function that renders a message.
\<close>

type_synonym parser = "jsstring \<Rightarrow> element list"

definition set_innerHTML :: "parser \<Rightarrow> jsstring \<Rightarrow> element \<Rightarrow> element" where
  "set_innerHTML parse html e = Element ((props e)\<lparr>innerHTML := html\<rparr>) (parse html)"

text \<open>
  \<^verbatim>\<open>document.getElementById\<close> returns the first element with the id in tree order;
  \<open>remove_first\<close> detaches that element from its parent, as \<^verbatim>\<open>.remove()\<close> does.
\<close>

fun getElementById :: "jsstring \<Rightarrow> element list \<Rightarrow> element option" where
  "getElementById i [] = None"
| "getElementById i (Element p cs # es) =
     (if elem_id p = i then Some (Element p cs)
      else case getElementById i cs of
             Some e \<Rightarrow> Some e
           | None \<Rightarrow> getElementById i es)"

fun remove_first :: "jsstring \<Rightarrow> element list \<Rightarrow> element list" where
  "remove_first i [] = []"
| "remove_first i (Element p cs # es) =
     (if elem_id p = i then es
      else case getElementById i cs of
             Some e \<Rightarrow> Element p (remove_first i cs) # es
           | None \<Rightarrow> Element p cs # remove_first i es)"

record history_entry =
  user :: jsstring
  bot :: "jsstring option"
  timestamp :: jsstring

datatype log_arg = LogText jsstring | LogError error

text \<open>
  A request as passed to \<^verbatim>\<open>fetch\<close>. The body \<^verbatim>\<open>JSON.stringify({ message })\<close> is kept as the
  object it serialises: the list of its properties.
\<close>

record request =
  url :: jsstring
  http_method :: jsstring
  headers :: "(jsstring \<times> jsstring) list"
  body :: "(jsstring \<times> jsstring) list option"

text \<open>
  What waits for a fetch to settle: the rest of \<^verbatim>\<open>sendMessage\<close> with its local \<^verbatim>\<open>message\<close>,
  or the \<^verbatim>\<open>then\<close>/\<^verbatim>\<open>catch\<close> chain of the startup fetch. A timer callback of the script is always
  \<^verbatim>\<open>() => addSuggestions(labels)\<close>.
\<close>

datatype continuation = AwaitMessage jsstring | AwaitSuggestions

datatype callback = AddSuggestions "jsstring list"

record timer =
  delay :: nat
  callback :: callback

text \<open>
  The state the script reads and writes: its global \<^verbatim>\<open>chatHistory\<close>, the children of the
  element \<^verbatim>\<open>#chatMessages\<close>, the value of the field \<^verbatim>\<open>#messageInput\<close>, the calls made to
  \<^verbatim>\<open>console.error\<close>, the fetches not yet settled and the timers not yet fired. The input
  field holds exactly the text last put into it. The scroll position is layout and is left
  out.
\<close>

record state =
  chatHistory :: "history_entry list"
  chatMessages :: "element list"
  messageInput :: jsstring
  console :: "log_arg list list"
  pending :: "(request \<times> continuation) list"
  timers :: "timer list"

section \<open>Rendering\<close>

definition indent :: "nat \<Rightarrow> jsstring" where
  "indent n = replicate n 0x20"

definition newline :: jsstring where
  "newline = [0xA]"

text \<open>
  The chip that \<^verbatim>\<open>addSuggestions\<close> builds for one label, and the function itself: a panel
  to which the chips are appended one by one, appended to the transcript.
\<close>

definition suggestion_chip :: "jsstring \<Rightarrow> element" where
  "suggestion_chip suggestion =
     set_props (\<lambda>p. p\<lparr>className := str ''suggestion-chip'', textContent := suggestion,
                       onclick := Some (ChipClick suggestion)\<rparr>)
       (createElement (str ''div''))"

definition addSuggestions :: "jsstring list \<Rightarrow> state \<Rightarrow> state" where
  "addSuggestions suggestions st =
     (let suggestionsDiv = set_props (\<lambda>p. p\<lparr>className := str ''suggestions''\<rparr>)
                             (createElement (str ''div''));
          filled = foldl (\<lambda>panel suggestion. appendChild panel (suggestion_chip suggestion))
                     suggestionsDiv suggestions
      in st\<lparr>chatMessages := chatMessages st @ [filled]\<rparr>)"

text \<open>The two conditional parts of a book card, and the template literal around them.\<close>

definition genre_html :: "book \<Rightarrow> jsstring" where
  \<open>genre_html book =
     (if truthy (genre book)
      then str ''<div style="color: #667eea; font-size: 12px; margin: 5px 0;">''
           @ to_string (genre book) @ str ''</div>''
      else [])\<close>

definition rating_html :: "book \<Rightarrow> jsstring" where
  \<open>rating_html book =
     (if truthy_number (rating book)
      then str ''<div class="book-rating">'' @ [0x2B50] @ str '' ''
           @ number_to_string (rating book) @ str ''/5</div>''
      else [])\<close>

definition card_html :: "book \<Rightarrow> jsstring" where
  \<open>card_html book =
     newline @ indent 24 @ str ''<div class="book-title">'' @ to_string (title book)
       @ str ''</div>''
     @ newline @ indent 24 @ str ''<div class="book-author">by '' @ to_string (author book)
       @ str ''</div>''
     @ newline @ indent 24 @ genre_html book
     @ newline @ indent 24 @ rating_html book
     @ newline @ indent 20\<close>

definition bookCard :: "parser \<Rightarrow> book \<Rightarrow> element" where
  "bookCard parse book =
     set_innerHTML parse (card_html book)
       (set_props (\<lambda>p. p\<lparr>className := str ''book-card''\<rparr>) (createElement (str ''div'')))"

text \<open>
  \<^verbatim>\<open>addMessage(text, isUser, type, books, suggestions)\<close>. With \<^verbatim>\<open>type === 'text'\<close> a missing
  \<^verbatim>\<open>text\<close> makes \<^verbatim>\<open>text.replace\<close> throw a TypeError, before the document is touched. The
  element returned by the source is used by no caller and is not returned here.
\<close>

definition addMessage ::
  "parser \<Rightarrow> jsstring option \<Rightarrow> bool \<Rightarrow> jsstring \<Rightarrow> book list \<Rightarrow> jsstring list \<Rightarrow> state
     \<Rightarrow> error + state"
where
  "addMessage parse text isUser type books suggestions st =
     (let messageDiv =
            set_props (\<lambda>p. p\<lparr>className :=
                         str ''message '' @ (if isUser then str ''user-message''
                                             else str ''bot-message'')\<rparr>)
              (createElement (str ''div''));
          rendered =
            (if type = str ''text'' then
               (case text of
                  None \<Rightarrow> Inl TypeError
                | Some t \<Rightarrow> Inr (set_innerHTML parse (replace_newlines t) messageDiv))
             else if type = str ''book_list'' then
               Inr (foldl (\<lambda>msg book. appendChild msg (bookCard parse book))
                      (set_innerHTML parse
                         (str ''<strong>'' @ to_string text @ str ''</strong>'') messageDiv)
                      books)
             else Inr messageDiv)
      in case rendered of
           Inl e \<Rightarrow> Inl e
         | Inr msg \<Rightarrow>
             (let st1 = st\<lparr>chatMessages := chatMessages st @ [msg]\<rparr>
              in Inr (if length suggestions > 0 then addSuggestions suggestions st1 else st1)))"

section \<open>Typing indicator\<close>

text \<open>
  The markup of the indicator is a fixed literal: three empty \<^verbatim>\<open>div\<close>s of class
  \<^verbatim>\<open>typing-dot\<close>, which carry neither an id nor a handler. It is kept as the text assigned.
\<close>

definition typing_html :: jsstring where
  \<open>typing_html =
     newline @ indent 16 @ str ''<div class="typing-dot"></div>''
     @ newline @ indent 16 @ str ''<div class="typing-dot"></div>''
     @ newline @ indent 16 @ str ''<div class="typing-dot"></div>''
     @ newline @ indent 12\<close>

definition typingDiv :: element where
  "typingDiv =
     set_props (\<lambda>p. p\<lparr>className := str ''typing-indicator'', elem_id := str ''typingIndicator'',
                       innerHTML := typing_html\<rparr>)
       (createElement (str ''div''))"

definition showTypingIndicator :: "state \<Rightarrow> state" where
  "showTypingIndicator st = st\<lparr>chatMessages := chatMessages st @ [typingDiv]\<rparr>"

definition hideTypingIndicator :: "state \<Rightarrow> state" where
  "hideTypingIndicator st =
     (case getElementById (str ''typingIndicator'') (chatMessages st) of
        None \<Rightarrow> st
      | Some typingIndicator \<Rightarrow>
          st\<lparr>chatMessages := remove_first (str ''typingIndicator'') (chatMessages st)\<rparr>)"

section \<open>Conversation controller\<close>

definition message_request :: "jsstring \<Rightarrow> request" where
  "message_request message =
     \<lparr>url = str ''/api/chatbot/message'', http_method = str ''POST'',
      headers = [(str ''Content-Type'', str ''application/json'')],
      body = Some [(str ''message'', message)]\<rparr>"

definition fallback_text :: jsstring where
  "fallback_text = str ''Sorry, I'm having trouble connecting. Please try again.''"

text \<open>
  \<^verbatim>\<open>sendMessage\<close> up to its \<^verbatim>\<open>await fetch(...)\<close>: everything that runs before control returns to
  the event loop. The fetch is recorded as pending together with the suspended rest of the
  function. Were \<^verbatim>\<open>addMessage\<close> to throw here, outside the \<^verbatim>\<open>try\<close>, the call would end there.
\<close>

definition sendMessage :: "parser \<Rightarrow> state \<Rightarrow> state" where
  "sendMessage parse st =
     (let message = trim (messageInput st)
      in if message = [] then st
         else case addMessage parse (Some message) True (str ''text'') [] [] st of
                Inl e \<Rightarrow> st
              | Inr st1 \<Rightarrow>
                  (let st2 = st1\<lparr>messageInput := []\<rparr>;
                       st3 = showTypingIndicator st2
                   in st3\<lparr>pending := pending st3
                             @ [(message_request message, AwaitMessage message)]\<rparr>))"

text \<open>The \<^verbatim>\<open>catch\<close> block of \<^verbatim>\<open>sendMessage\<close>.\<close>

definition catch_block :: "parser \<Rightarrow> error \<Rightarrow> state \<Rightarrow> state" where
  "catch_block parse e st =
     (let st1 = st\<lparr>console := console st @ [[LogText (str ''Error:''), LogError e]]\<rparr>;
          st2 = hideTypingIndicator st1
      in case addMessage parse (Some fallback_text) False (str ''text'') [] [] st2 of
           Inl e' \<Rightarrow> st2
         | Inr st3 \<Rightarrow> st3)"

text \<open>
  \<^verbatim>\<open>a || b\<close> for a string or an array that may be missing: the empty string is falsy, every
  array is truthy.
\<close>

definition or_string :: "jsstring option \<Rightarrow> jsstring \<Rightarrow> jsstring" where
  "or_string v d = (if truthy v then to_string v else d)"

definition or_array :: "'a list option \<Rightarrow> 'a list \<Rightarrow> 'a list" where
  "or_array v d = (case v of None \<Rightarrow> d | Some xs \<Rightarrow> xs)"

text \<open>
  The rest of \<^verbatim>\<open>sendMessage\<close>, resumed when its fetch has settled. \<open>message\<close> is the local of
  the suspended call and \<open>now\<close> the text of \<^verbatim>\<open>new Date().toISOString()\<close> at that moment.
\<close>

definition sendMessage_resume ::
  "parser \<Rightarrow> jsstring \<Rightarrow> jsstring \<Rightarrow> outcome \<Rightarrow> state \<Rightarrow> state"
where
  "sendMessage_resume parse message now result st =
     (case result of
        Rejected \<Rightarrow> catch_block parse FetchRejected st
      | Responded status None \<Rightarrow> catch_block parse BodyNotJSON st
      | Responded status (Some data) \<Rightarrow>
          (let st1 = hideTypingIndicator st
           in case addMessage parse (data_text data) False
                     (or_string (data_type data) (str ''text''))
                     (or_array (data_books data) []) (or_array (data_suggestions data) []) st1 of
                Inl e \<Rightarrow> catch_block parse e st1
              | Inr st2 \<Rightarrow>
                  st2\<lparr>chatHistory := chatHistory st2
                         @ [\<lparr>user = message, bot = data_text data, timestamp = now\<rparr>]\<rparr>))"

definition handleKeyPress :: "parser \<Rightarrow> jsstring \<Rightarrow> state \<Rightarrow> state" where
  "handleKeyPress parse key st = (if key = str ''Enter'' then sendMessage parse st else st)"

text \<open>Running a click handler, and clicking an element.\<close>

fun run_handler :: "parser \<Rightarrow> handler \<Rightarrow> state \<Rightarrow> state" where
  "run_handler parse (ChipClick suggestion) st =
     sendMessage parse (st\<lparr>messageInput := suggestion\<rparr>)"

definition click :: "parser \<Rightarrow> element \<Rightarrow> state \<Rightarrow> state" where
  "click parse e st =
     (case onclick (props e) of None \<Rightarrow> st | Some h \<Rightarrow> run_handler parse h st)"

text \<open>The user editing the input field so that it holds \<open>s\<close>.\<close>

definition type_text :: "jsstring \<Rightarrow> state \<Rightarrow> state" where
  "type_text s st = st\<lparr>messageInput := s\<rparr>"

section \<open>Startup\<close>

definition welcome_suggestions :: "jsstring list" where
  "welcome_suggestions =
     [str ''Recommend a fantasy book'', str ''Search for Stephen King'',
      str ''Show top rated books'', str ''What genres do you have?'']"

definition suggestions_request :: request where
  "suggestions_request =
     \<lparr>url = str ''/api/chatbot/suggestions'', http_method = str ''GET'', headers = [],
      body = None\<rparr>"

definition setTimeout :: "callback \<Rightarrow> nat \<Rightarrow> state \<Rightarrow> state" where
  "setTimeout cb ms st = st\<lparr>timers := timers st @ [\<lparr>delay = ms, callback = cb\<rparr>]\<rparr>"

text \<open>
  The top level of the script, run once when the page loads it: the history starts empty,
  the welcome chips are scheduled, the suggestion fetch is issued.
\<close>

definition startup :: "state \<Rightarrow> state" where
  "startup st =
     (let st1 = st\<lparr>chatHistory := []\<rparr>;
          st2 = setTimeout (AddSuggestions welcome_suggestions) 500 st1
      in st2\<lparr>pending := pending st2 @ [(suggestions_request, AwaitSuggestions)]\<rparr>)"

text \<open>
  The handlers chained to the startup fetch: \<^verbatim>\<open>slice(0, 4)\<close> is \<open>take 4\<close>, a rejection
  anywhere in the chain reaches \<^verbatim>\<open>catch(console.error)\<close>.
\<close>

definition load_suggestions :: "outcome \<Rightarrow> state \<Rightarrow> state" where
  "load_suggestions result st =
     (case result of
        Rejected \<Rightarrow> st\<lparr>console := console st @ [[LogError FetchRejected]]\<rparr>
      | Responded status None \<Rightarrow> st\<lparr>console := console st @ [[LogError BodyNotJSON]]\<rparr>
      | Responded status (Some data) \<Rightarrow>
          (case data_suggestions data of
             None \<Rightarrow> st
           | Some suggestions \<Rightarrow>
               if length suggestions > 0
               then setTimeout (AddSuggestions (take 4 suggestions)) 1000 st
               else st))"

section \<open>The event loop\<close>

fun run_callback :: "callback \<Rightarrow> state \<Rightarrow> state" where
  "run_callback (AddSuggestions labels) st = addSuggestions labels st"

definition remove_nth :: "nat \<Rightarrow> 'a list \<Rightarrow> 'a list" where
  "remove_nth i xs = take i xs @ drop (Suc i) xs"

text \<open>The \<open>i\<close>-th waiting timer fires; the \<open>i\<close>-th pending fetch settles with a result.\<close>

definition fire_timer :: "nat \<Rightarrow> state \<Rightarrow> state" where
  "fire_timer i st =
     (if i < length (timers st)
      then run_callback (callback (timers st ! i)) (st\<lparr>timers := remove_nth i (timers st)\<rparr>)
      else st)"

definition settle :: "parser \<Rightarrow> nat \<Rightarrow> outcome \<Rightarrow> jsstring \<Rightarrow> state \<Rightarrow> state" where
  "settle parse i result now st =
     (if i < length (pending st)
      then (let st1 = st\<lparr>pending := remove_nth i (pending st)\<rparr>
            in case snd (pending st ! i) of
                 AwaitMessage message \<Rightarrow> sendMessage_resume parse message now result st1
               | AwaitSuggestions \<Rightarrow> load_suggestions result st1)
      else st)"

text \<open>
  The controller is awaiting a response while a call of \<^verbatim>\<open>sendMessage\<close> is suspended at its
  \<^verbatim>\<open>await\<close>, and idle otherwise.
\<close>

datatype conversation_state = Idle | AwaitingResponse

fun is_message_wait :: "request \<times> continuation \<Rightarrow> bool" where
  "is_message_wait (r, AwaitMessage message) = True"
| "is_message_wait (r, AwaitSuggestions) = False"

definition conversation_state :: "state \<Rightarrow> conversation_state" where
  "conversation_state st =
     (if list_ex is_message_wait (pending st) then AwaitingResponse else Idle)"

section \<open>Notions used to state the properties\<close>

text \<open>
  A \<^verbatim>\<open>div\<close> with a class, markup and the given children, and with neither id, text nor
  handler.
\<close>

abbreviation div_element :: "jsstring \<Rightarrow> jsstring \<Rightarrow> element list \<Rightarrow> element" where
  "div_element cls html kids \<equiv>
     Element \<lparr>tagName = str ''div'', className = cls, elem_id = [], innerHTML = html,
       textContent = [], onclick = None\<rparr> kids"

text \<open>The same with the elements parsed out of its markup in front of the other children.\<close>

abbreviation parsed_div :: "parser \<Rightarrow> jsstring \<Rightarrow> jsstring \<Rightarrow> element list \<Rightarrow> element" where
  "parsed_div parse cls html kids \<equiv>
     Element \<lparr>tagName = str ''div'', className = cls, elem_id = [], innerHTML = html,
       textContent = [], onclick = None\<rparr> (parse html @ kids)"

text \<open>The number of elements with a given id anywhere in the transcript.\<close>

fun count_id :: "jsstring \<Rightarrow> element list \<Rightarrow> nat" where
  "count_id i [] = 0"
| "count_id i (Element p cs # es) =
     (if elem_id p = i then 1 else 0) + count_id i cs + count_id i es"

definition indicator_count :: "state \<Rightarrow> nat" where
  "indicator_count st = count_id (str ''typingIndicator'') (chatMessages st)"

text \<open>
  Sequences of calls of the two indicator functions, and the sequences in which
  \<^verbatim>\<open>showTypingIndicator\<close> is only called while no indicator is shown.
\<close>

datatype indicator_call = Show | Hide

fun run_call :: "indicator_call \<Rightarrow> state \<Rightarrow> state" where
  "run_call Show st = showTypingIndicator st"
| "run_call Hide st = hideTypingIndicator st"

fun run_calls :: "indicator_call list \<Rightarrow> state \<Rightarrow> state" where
  "run_calls [] st = st"
| "run_calls (c # cs) st = run_calls cs (run_call c st)"

fun show_only_when_hidden :: "bool \<Rightarrow> indicator_call list \<Rightarrow> bool" where
  "show_only_when_hidden shown [] = True"
| "show_only_when_hidden shown (Show # cs) = (\<not> shown \<and> show_only_when_hidden True cs)"
| "show_only_when_hidden shown (Hide # cs) = show_only_when_hidden False cs"

text \<open>
  The results on which the \<^verbatim>\<open>try\<close> block of \<^verbatim>\<open>sendMessage\<close> throws: the fetch rejects, the
  body is not JSON, or \<^verbatim>\<open>text\<close> is missing while the message is rendered as plain text.
\<close>

definition throws :: "outcome \<Rightarrow> bool" where
  "throws result =
     (case result of
        Rejected \<Rightarrow> True
      | Responded status None \<Rightarrow> True
      | Responded status (Some data) \<Rightarrow>
          data_text data = None \<and> or_string (data_type data) (str ''text'') = str ''text'')"

text \<open>
  The defaults of the interface, in its words: \<^verbatim>\<open>type\<close> defaults to plain text, \<^verbatim>\<open>books\<close> and
  \<^verbatim>\<open>suggestions\<close> default to empty sequences.
\<close>

definition apply_defaults :: "data \<Rightarrow> data" where
  "apply_defaults d =
     d\<lparr>data_type := Some (case data_type d of None \<Rightarrow> str ''text'' | Some t \<Rightarrow> t),
       data_books := Some (case data_books d of None \<Rightarrow> [] | Some bs \<Rightarrow> bs),
       data_suggestions := Some (case data_suggestions d of None \<Rightarrow> [] | Some xs \<Rightarrow> xs)\<rparr>"

text \<open>A page with an empty transcript, an empty input field and nothing under way.\<close>

definition blank_page :: state where
  "blank_page =
     \<lparr>chatHistory = [], chatMessages = [], messageInput = [], console = [], pending = [],
      timers = []\<rparr>"

text \<open>
  The browser's parser on the texts of the examples below. The one text with markup among
  them spells out a single empty \<^verbatim>\<open>i\<close> element that carries the id of the indicator; every
  other text the examples render holds no tag, and in a text without tags the browser finds
  no element.
\<close>

definition injected_markup :: jsstring where
  \<open>injected_markup = str ''<i id="typingIndicator"></i>''\<close>

definition sample_parser :: parser where
  "sample_parser html =
     (if html = injected_markup
      then [Element \<lparr>tagName = str ''i'', className = [], elem_id = str ''typingIndicator'',
              innerHTML = [], textContent = [], onclick = None\<rparr> []]
      else [])"

text \<open>
  The page after a first exchange in which the user has sent that marked-up text and the
  server has answered.
\<close>

definition after_injection :: state where
  "after_injection =
     settle sample_parser 0
       (Responded 200
          (Some \<lparr>data_text = Some (str ''ok''), data_type = None, data_books = None,
                 data_suggestions = None\<rparr>))
       (str ''2026-11-02T08:59:00.000Z'')
       (sendMessage sample_parser (type_text injected_markup blank_page))"

section \<open>Properties of strings\<close>

lemma unat_of_char: "unat (of_char a :: 16 word) = of_char a"
proof -
  have "(of_char a :: nat) < 256" by simp
  then have lt: "(of_char a :: nat) < 2 ^ 16"
    by (rule order_less_le_trans) simp
  have "(of_char a :: 16 word) = of_nat (of_char a)"
    by (simp only: of_nat_of_char)
  then have "unat (of_char a :: 16 word) = of_char a mod 2 ^ 16"
    by (simp only: unat_of_nat len_of_numeral_defs) simp
  with lt show ?thesis by simp
qed

lemma of_char_word_inj: "(of_char a :: 16 word) = of_char b \<longleftrightarrow> a = b"
proof
  assume "(of_char a :: 16 word) = of_char b"
  then have "unat (of_char a :: 16 word) = unat (of_char b :: 16 word)" by simp
  then have "(of_char a :: nat) = of_char b" by (simp only: unat_of_char)
  then show "a = b" by simp
qed simp

lemma str_inject [simp]: "str a = str b \<longleftrightarrow> a = b"
  unfolding str_def by (rule inj_map_eq_map) (simp add: inj_def of_char_word_inj)

lemma str_Nil [simp]: "str a = [] \<longleftrightarrow> a = []" "[] = str a \<longleftrightarrow> a = []"
  by (auto simp add: str_def)

lemma str_append: "str a @ str b = str (a @ b)"
  by (simp add: str_def)

lemma message_class [simp]:
  "str ''message '' @ str ''user-message'' = str ''message user-message''"
  "str ''message '' @ str ''bot-message'' = str ''message bot-message''"
  by (simp_all add: str_append)

lemma trim_empty_iff: "trim s = [] \<longleftrightarrow> (\<forall>c\<in>set s. is_white_space c)"
proof
  assume "trim s = []"
  then have all: "\<forall>c\<in>set (dropWhile is_white_space s). is_white_space c"
    by (simp add: trim_def)
  have "dropWhile is_white_space s = []"
  proof (rule ccontr)
    assume ne: "dropWhile is_white_space s \<noteq> []"
    then have "\<not> is_white_space (hd (dropWhile is_white_space s))"
      by (rule hd_dropWhile)
    moreover from ne have "hd (dropWhile is_white_space s) \<in> set (dropWhile is_white_space s)"
      by simp
    ultimately show False using all by blast
  qed
  then show "\<forall>c\<in>set s. is_white_space c" by simp
next
  assume "\<forall>c\<in>set s. is_white_space c"
  then have "dropWhile is_white_space s = []" by simp
  then show "trim s = []"
    by (simp only: trim_def rev.simps dropWhile.simps)
qed

section \<open>Properties of rendering\<close>

lemma foldl_appendChild:
  "foldl (\<lambda>e x. appendChild e (f x)) e xs = Element (props e) (children e @ map f xs)"
  by (induction xs arbitrary: e) (simp_all add: appendChild_def)

lemma addSuggestions_eq:
  "addSuggestions labels st =
     st\<lparr>chatMessages := chatMessages st
           @ [div_element (str ''suggestions'') [] (map suggestion_chip labels)]\<rparr>"
  by (simp add: addSuggestions_def foldl_appendChild set_props_def createElement_def)

lemma addMessage_text:
  "addMessage parse (Some t) u (str ''text'') books [] st =
     Inr (st\<lparr>chatMessages := chatMessages st
                @ [parsed_div parse (str ''message '' @ (if u then str ''user-message''
                                                           else str ''bot-message''))
                     (replace_newlines t) []]\<rparr>)"
  by (simp add: addMessage_def set_innerHTML_def set_props_def createElement_def)

lemma sample_parser_plain: "html \<noteq> injected_markup \<Longrightarrow> sample_parser html = []"
  by (simp add: sample_parser_def)

lemma sample_parser_hello [simp]: "sample_parser (str ''hello'') = []"
  by (rule sample_parser_plain) (simp add: injected_markup_def)

lemma sendMessage_blank: "trim (messageInput st) = [] \<Longrightarrow> sendMessage parse st = st"
  by (simp add: sendMessage_def)

lemma sendMessage_nonblank:
  "trim (messageInput st) \<noteq> [] \<Longrightarrow>
   sendMessage parse st =
     st\<lparr>chatMessages := chatMessages st
           @ [parsed_div parse (str ''message user-message'')
                (replace_newlines (trim (messageInput st))) [],
              typingDiv],
        messageInput := [],
        pending := pending st
           @ [(message_request (trim (messageInput st)),
               AwaitMessage (trim (messageInput st)))]\<rparr>"
  by (simp add: sendMessage_def addMessage_text showTypingIndicator_def Let_def)

section \<open>Showing and hiding the indicator\<close>

lemma count_id_append: "count_id i (es @ fs) = count_id i es + count_id i fs"
  by (induction i es rule: count_id.induct) simp_all

lemma getElementById_None_iff: "getElementById i es = None \<longleftrightarrow> count_id i es = 0"
  by (induction i es rule: getElementById.induct) (auto split: option.splits)

lemma remove_first_absent: "getElementById i es = None \<Longrightarrow> remove_first i es = es"
  by (induction i es rule: remove_first.induct) (auto split: option.splits if_splits)

lemma count_id_remove_first:
  "0 < count_id i es \<Longrightarrow> count_id i (remove_first i es) < count_id i es"
proof (induction i es rule: remove_first.induct)
  case (1 i)
  then show ?case by simp
next
  case (2 i p cs es)
  show ?case
  proof (cases "elem_id p = i")
    case True
    then show ?thesis by simp
  next
    case False
    show ?thesis
    proof (cases "getElementById i cs")
      case None
      then have "count_id i cs = 0"
        by (simp add: getElementById_None_iff)
      with "2.prems" False have "0 < count_id i es" by simp
      with "2.IH" False None have "count_id i (remove_first i es) < count_id i es"
        by blast
      with False None show ?thesis by simp
    next
      case (Some e)
      then have "0 < count_id i cs"
        using getElementById_None_iff [of i cs] by simp
      with "2.IH" False Some have "count_id i (remove_first i cs) < count_id i cs"
        by blast
      with False Some show ?thesis by simp
    qed
  qed
qed

lemma getElementById_append:
  "getElementById i (es @ fs) =
     (case getElementById i es of Some e \<Rightarrow> Some e | None \<Rightarrow> getElementById i fs)"
  by (induction i es rule: getElementById.induct) (auto split: option.splits)

lemma remove_first_append:
  "remove_first i (es @ fs) =
     (case getElementById i es of
        Some e \<Rightarrow> remove_first i es @ fs
      | None \<Rightarrow> es @ remove_first i fs)"
  by (induction i es rule: remove_first.induct)
     (auto split: option.splits simp: getElementById_append)

lemma hideTypingIndicator_eq:
  "hideTypingIndicator st =
     st\<lparr>chatMessages := remove_first (str ''typingIndicator'') (chatMessages st)\<rparr>"
  by (simp add: hideTypingIndicator_def remove_first_absent split: option.splits)

lemma count_typingDiv: "count_id (str ''typingIndicator'') [typingDiv] = 1"
  by (simp add: typingDiv_def set_props_def createElement_def)

lemma indicator_count_show:
  "indicator_count (showTypingIndicator st) = Suc (indicator_count st)"
  by (simp add: indicator_count_def showTypingIndicator_def count_id_append count_typingDiv)

lemma hide_absent:
  assumes "indicator_count st = 0"
  shows "hideTypingIndicator st = st"
proof -
  from assms have "getElementById (str ''typingIndicator'') (chatMessages st) = None"
    by (simp add: indicator_count_def getElementById_None_iff)
  then show ?thesis
    by (simp add: hideTypingIndicator_def)
qed

lemma indicator_count_hide:
  "0 < indicator_count st \<Longrightarrow> indicator_count (hideTypingIndicator st) < indicator_count st"
  by (simp add: indicator_count_def hideTypingIndicator_eq count_id_remove_first)

lemma indicator_count_hide_le: "indicator_count (hideTypingIndicator st) \<le> indicator_count st"
proof (cases "indicator_count st = 0")
  case True
  then show ?thesis by (simp add: hide_absent)
next
  case False
  then have "indicator_count (hideTypingIndicator st) < indicator_count st"
    by (simp add: indicator_count_hide)
  then show ?thesis by simp
qed

lemma hide_last: "indicator_count st \<le> 1 \<Longrightarrow> indicator_count (hideTypingIndicator st) = 0"
proof (cases "indicator_count st = 0")
  case True
  then show ?thesis by (simp add: hide_absent)
next
  case False
  assume "indicator_count st \<le> 1"
  moreover from False have "indicator_count (hideTypingIndicator st) < indicator_count st"
    by (simp add: indicator_count_hide)
  ultimately show ?thesis by simp
qed

lemma run_calls_disciplined:
  assumes "indicator_count st = (if shown then 1 else 0)"
    and "show_only_when_hidden shown calls"
  shows "indicator_count (run_calls calls st) \<le> 1
     \<and> (calls \<noteq> [] \<and> last calls = Hide \<longrightarrow> indicator_count (run_calls calls st) = 0)"
  using assms
proof (induction calls arbitrary: st shown)
  case Nil
  then show ?case by simp
next
  case (Cons c calls)
  show ?case
  proof (cases c)
    case Show
    with Cons.prems have hidden: "\<not> shown" and rest: "show_only_when_hidden True calls"
      by simp_all
    from hidden Cons.prems(1)
    have "indicator_count (showTypingIndicator st) = (if True then 1 else 0)"
      by (simp add: indicator_count_show)
    from Cons.IH [OF this rest] Show show ?thesis
      by auto
  next
    case Hide
    with Cons.prems have rest: "show_only_when_hidden False calls"
      by simp
    from Cons.prems(1) have "indicator_count st \<le> 1"
      by (simp split: if_splits)
    then have none: "indicator_count (hideTypingIndicator st) = 0"
      by (rule hide_last)
    then have "indicator_count (hideTypingIndicator st) = (if False then 1 else 0)"
      by simp
    from Cons.IH [OF this rest] Hide none show ?thesis
      by (cases calls) auto
  qed
qed

text \<open>
  C3, as the script has it. \<^verbatim>\<open>showTypingIndicator\<close> always appends one more indicator element,
  whether or not one is shown. \<^verbatim>\<open>hideTypingIndicator\<close> does nothing when there is none and
  removes one when there is. When \<^verbatim>\<open>showTypingIndicator\<close> is only called while no indicator is
  shown, at most one indicator exists after any sequence of calls, and none after a sequence
  that ends with \<^verbatim>\<open>hideTypingIndicator\<close>; calling \<^verbatim>\<open>hideTypingIndicator\<close> twice in a row leaves
  none when at most one was shown.
\<close>

theorem indicator_calls:
  "indicator_count (showTypingIndicator st) = Suc (indicator_count st)
   \<and> (indicator_count st = 0 \<longrightarrow> hideTypingIndicator st = st)
   \<and> (0 < indicator_count st \<longrightarrow>
        indicator_count (hideTypingIndicator st) < indicator_count st)
   \<and> (indicator_count st = 0 \<and> show_only_when_hidden False calls \<longrightarrow>
        indicator_count (run_calls calls st) \<le> 1
        \<and> (calls \<noteq> [] \<and> last calls = Hide \<longrightarrow> indicator_count (run_calls calls st) = 0))
   \<and> (indicator_count st \<le> 1 \<longrightarrow>
        indicator_count (hideTypingIndicator (hideTypingIndicator st)) = 0)"
proof -
  have seq: "indicator_count (run_calls calls st) \<le> 1
      \<and> (calls \<noteq> [] \<and> last calls = Hide \<longrightarrow> indicator_count (run_calls calls st) = 0)"
    if "indicator_count st = 0" and "show_only_when_hidden False calls"
    using that run_calls_disciplined [of st False calls] by simp
  have twice: "indicator_count (hideTypingIndicator (hideTypingIndicator st)) = 0"
    if "indicator_count st \<le> 1"
  proof -
    from that have "indicator_count (hideTypingIndicator st) = 0"
      by (rule hide_last)
    then show ?thesis
      by (simp add: hide_absent)
  qed
  from seq twice show ?thesis
    by (simp add: indicator_count_show hide_absent indicator_count_hide)
qed

theorem indicator_calls_witness:
  "indicator_count blank_page = 0
   \<and> show_only_when_hidden False [Show, Hide, Show, Hide, Hide]
   \<and> hideTypingIndicator blank_page = blank_page
   \<and> indicator_count (showTypingIndicator blank_page) = 1
   \<and> indicator_count (hideTypingIndicator (showTypingIndicator blank_page)) = 0
   \<and> indicator_count (run_calls [Show, Hide, Show, Hide, Hide] blank_page) = 0"
proof -
  have z: "indicator_count blank_page = 0"
    by (simp add: indicator_count_def blank_page_def)
  have d: "show_only_when_hidden False [Show, Hide, Show, Hide, Hide]"
    by simp
  have one: "indicator_count (showTypingIndicator blank_page) = 1"
    using indicator_calls [of blank_page "[]"] z by simp
  from indicator_calls [of blank_page "[Show, Hide, Show, Hide, Hide]"] z d
  have a: "hideTypingIndicator blank_page = blank_page"
    and b: "indicator_count (run_calls [Show, Hide, Show, Hide, Hide] blank_page) = 0"
    by simp_all
  from indicator_calls [of "showTypingIndicator blank_page" "[]"] one
  have c: "indicator_count (hideTypingIndicator (showTypingIndicator blank_page)) = 0"
    by simp
  from z d a one c b show ?thesis
    by simp
qed

theorem unguarded_show_counterexample:
  "indicator_count (run_calls [Show, Show] blank_page) = 2
   \<and> indicator_count (run_calls [Show, Show, Hide] blank_page) = 1
   \<and> last [Show, Show, Hide] = Hide"
  by (simp add: indicator_count_def blank_page_def showTypingIndicator_def
        hideTypingIndicator_def typingDiv_def set_props_def createElement_def)

section \<open>Submitting input\<close>

text \<open>
  C4. Input that is empty or consists only of white space is ignored: \<^verbatim>\<open>sendMessage\<close>,
  called directly or through the Enter key, leaves the whole state as it is, so nothing is
  added to the transcript, no request is issued, and the history and the input field keep
  their contents.
\<close>

theorem blank_input_ignored:
  assumes "\<forall>c\<in>set (messageInput st). is_white_space c"
  shows "sendMessage parse st = st \<and> handleKeyPress parse (str ''Enter'') st = st"
proof -
  from assms have "trim (messageInput st) = []"
    by (simp add: trim_empty_iff)
  then have "sendMessage parse st = st"
    by (rule sendMessage_blank)
  then show ?thesis
    by (simp add: handleKeyPress_def)
qed

theorem blank_input_ignored_witness:
  "list_all is_white_space [0x20, 0x9, 0xA0]
   \<and> sendMessage sample_parser (blank_page\<lparr>messageInput := [0x20, 0x9, 0xA0]\<rparr>)
       = blank_page\<lparr>messageInput := [0x20, 0x9, 0xA0]\<rparr>
   \<and> chatMessages (sendMessage sample_parser (blank_page\<lparr>messageInput := [0x20, 0x9, 0xA0]\<rparr>))
       = []
   \<and> pending (sendMessage sample_parser (blank_page\<lparr>messageInput := [0x20, 0x9, 0xA0]\<rparr>))
       = []"
proof -
  have ws: "\<forall>c\<in>set (messageInput (blank_page\<lparr>messageInput := [0x20, 0x9, 0xA0]\<rparr>)).
              is_white_space c"
    by (simp add: is_white_space_def)
  from blank_input_ignored [where parse = sample_parser, OF ws] ws show ?thesis
    by (simp add: blank_page_def list_all_iff)
qed

text \<open>
  C7, as the script has it. When the trimmed input is not empty, \<^verbatim>\<open>sendMessage\<close> appends the
  user's entry, clears the input field, appends the typing indicator and issues the POST
  request; the entry, and the \<^verbatim>\<open>message\<close> field of the request body, hold the trimmed input,
  which differs from the raw input when that starts or ends with white space.
\<close>

theorem nonblank_input_sent:
  assumes "trim (messageInput st) \<noteq> []"
  shows "sendMessage parse st =
     st\<lparr>chatMessages := chatMessages st
           @ [parsed_div parse (str ''message user-message'')
                (replace_newlines (trim (messageInput st))) [],
              typingDiv],
        messageInput := [],
        pending := pending st
           @ [(\<lparr>url = str ''/api/chatbot/message'', http_method = str ''POST'',
                headers = [(str ''Content-Type'', str ''application/json'')],
                body = Some [(str ''message'', trim (messageInput st))]\<rparr>,
               AwaitMessage (trim (messageInput st)))]\<rparr>"
  using assms by (simp add: sendMessage_nonblank message_request_def)

theorem nonblank_input_sent_witness:
  "trim (messageInput (blank_page\<lparr>messageInput := str ''hello ''\<rparr>)) \<noteq> []
   \<and> sendMessage sample_parser (blank_page\<lparr>messageInput := str ''hello ''\<rparr>) =
     blank_page\<lparr>chatMessages :=
           [div_element (str ''message user-message'') (str ''hello'') [], typingDiv],
        messageInput := [],
        pending :=
           [(\<lparr>url = str ''/api/chatbot/message'', http_method = str ''POST'',
              headers = [(str ''Content-Type'', str ''application/json'')],
              body = Some [(str ''message'', str ''hello'')]\<rparr>,
             AwaitMessage (str ''hello''))]\<rparr>"
proof -
  have t: "trim (str ''hello '') = str ''hello''"
    by (simp add: trim_def str_def is_white_space_def)
  have r: "replace_newlines (str ''hello'') = str ''hello''"
    by (simp add: replace_newlines_def str_def)
  have ne: "trim (messageInput (blank_page\<lparr>messageInput := str ''hello ''\<rparr>)) \<noteq> []"
    by (simp add: t)
  from nonblank_input_sent [where parse = sample_parser, OF ne] ne show ?thesis
    by (simp add: t r blank_page_def)
qed

theorem raw_input_payload_counterexample:
  "trim (messageInput (blank_page\<lparr>messageInput := str '' hi''\<rparr>)) \<noteq> []
   \<and> map (\<lambda>p. body (fst p))
         (pending (sendMessage sample_parser (blank_page\<lparr>messageInput := str '' hi''\<rparr>)))
       = [Some [(str ''message'', str ''hi'')]]
   \<and> str ''hi'' \<noteq> messageInput (blank_page\<lparr>messageInput := str '' hi''\<rparr>)"
proof -
  have t: "trim (str '' hi'') = str ''hi''"
    by (simp add: trim_def str_def is_white_space_def)
  show ?thesis
    by (simp add: sendMessage_nonblank t message_request_def blank_page_def)
qed

section \<open>Handling the response\<close>

lemma remove_nth_last: "remove_nth (length xs) (xs @ [x]) = xs"
  by (simp add: remove_nth_def)

lemma settle_appended:
  assumes "pending st' = pending st @ [(r, k)]"
  shows "settle parse (length (pending st)) result now st' =
     (case k of
        AwaitMessage message \<Rightarrow>
          sendMessage_resume parse message now result (st'\<lparr>pending := pending st\<rparr>)
      | AwaitSuggestions \<Rightarrow> load_suggestions result (st'\<lparr>pending := pending st\<rparr>))"
  using assms by (simp add: settle_def remove_nth_last Let_def)

lemma replace_newlines_id: "0xA \<notin> set s \<Longrightarrow> replace_newlines s = s"
  by (induction s) (simp_all add: replace_newlines_def)

lemma replace_newlines_fallback: "replace_newlines fallback_text = fallback_text"
  by (rule replace_newlines_id) (simp add: fallback_text_def str_def)

lemma replace_newlines_hello: "replace_newlines (str ''hello'') = str ''hello''"
  by (rule replace_newlines_id) (simp add: str_def)

lemma trim_hello: "trim (str ''hello'') = str ''hello''"
  by (simp add: trim_def str_def is_white_space_def)

lemma sample_parser_fallback [simp]: "sample_parser fallback_text = []"
  by (rule sample_parser_plain) (simp add: injected_markup_def fallback_text_def)

lemma addMessage_Inl_iff:
  "addMessage parse text isUser type books suggestions st = Inl e
     \<longleftrightarrow> type = str ''text'' \<and> text = None \<and> e = TypeError"
  by (auto simp add: addMessage_def Let_def split: option.splits)

lemma addMessage_chatHistory:
  "addMessage parse text isUser type books suggestions st = Inr st'
     \<Longrightarrow> chatHistory st' = chatHistory st"
  by (auto simp add: addMessage_def Let_def addSuggestions_eq split: option.splits if_splits)

lemma catch_block_eq:
  "catch_block parse e st =
     st\<lparr>console := console st @ [[LogText (str ''Error:''), LogError e]],
        chatMessages := remove_first (str ''typingIndicator'') (chatMessages st)
           @ [parsed_div parse (str ''message bot-message'') fallback_text []]\<rparr>"
  by (simp add: catch_block_def hideTypingIndicator_eq addMessage_text
        replace_newlines_fallback)

lemma resume_throws:
  assumes "throws result"
  shows "sendMessage_resume parse message now result st =
     catch_block parse
       (case result of
          Rejected \<Rightarrow> FetchRejected
        | Responded status None \<Rightarrow> BodyNotJSON
        | Responded status (Some d) \<Rightarrow> TypeError)
       (case result of
          Rejected \<Rightarrow> st
        | Responded status None \<Rightarrow> st
        | Responded status (Some d) \<Rightarrow> hideTypingIndicator st)"
proof (cases result)
  case Rejected
  then show ?thesis
    by (simp add: sendMessage_resume_def)
next
  case (Responded status decoded)
  show ?thesis
  proof (cases decoded)
    case None
    with Responded show ?thesis
      by (simp add: sendMessage_resume_def)
  next
    case (Some d)
    with Responded assms
    have "addMessage parse (data_text d) False (or_string (data_type d) (str ''text''))
            (or_array (data_books d) []) (or_array (data_suggestions d) [])
            (hideTypingIndicator st) = Inl TypeError"
      by (simp add: throws_def addMessage_Inl_iff)
    with Responded Some show ?thesis
      by (simp add: sendMessage_resume_def)
  qed
qed

lemma resume_succeeds:
  assumes "\<not> throws result"
  shows "\<exists>d status. result = Responded status (Some d)
     \<and> chatHistory (sendMessage_resume parse message now result st) =
         chatHistory st @ [\<lparr>user = message, bot = data_text d, timestamp = now\<rparr>]"
proof -
  from assms obtain status d where r: "result = Responded status (Some d)"
    by (auto simp add: throws_def split: outcome.splits option.splits)
  let ?call = "addMessage parse (data_text d) False (or_string (data_type d) (str ''text''))
      (or_array (data_books d) []) (or_array (data_suggestions d) []) (hideTypingIndicator st)"
  from assms r have "\<forall>e. ?call \<noteq> Inl e"
    by (auto simp add: throws_def addMessage_Inl_iff)
  then obtain st2 where ok: "?call = Inr st2"
    by (cases ?call) auto
  then have "chatHistory st2 = chatHistory (hideTypingIndicator st)"
    by (rule addMessage_chatHistory)
  with ok r have "chatHistory (sendMessage_resume parse message now result st) =
      chatHistory st @ [\<lparr>user = message, bot = data_text d, timestamp = now\<rparr>]"
    by (simp add: sendMessage_resume_def hideTypingIndicator_eq)
  with r show ?thesis
    by blast
qed

lemma catch_block_indicator_count:
  assumes "count_id (str ''typingIndicator'') (parse fallback_text) = 0"
  shows "indicator_count (catch_block parse e st) = indicator_count (hideTypingIndicator st)"
  using assms
  by (simp add: catch_block_eq hideTypingIndicator_eq indicator_count_def count_id_append)

text \<open>
  C1, as the script has it, for a decoded body whose fields, where present, have the types of
  the interface. The rest of \<^verbatim>\<open>sendMessage\<close> takes the failure path exactly when its \<^verbatim>\<open>try\<close>
  block throws, that is, when the fetch rejects, the body is not JSON, or \<^verbatim>\<open>text\<close> is missing
  from a body rendered as plain text: then, and only then, the history is left as it was. On
  that path \<^verbatim>\<open>hideTypingIndicator\<close> has run (twice when a body was decoded: once in the \<^verbatim>\<open>try\<close>
  block, once in the \<^verbatim>\<open>catch\<close> block) and the fixed fallback message has been appended to what
  that left. \<^verbatim>\<open>hideTypingIndicator\<close> removes one element with the indicator's id: when the
  browser finds no such element in the fallback text, fewer are left than before if there was
  any, and none is left if there was at most one. The HTTP status plays no part.
\<close>

theorem failure_path:
  assumes "st' = sendMessage_resume parse message now result st"
  shows "(throws result \<longleftrightarrow> chatHistory st' = chatHistory st)
     \<and> (throws result \<longrightarrow>
          chatMessages st' =
            chatMessages
              (hideTypingIndicator
                 (case result of
                    Rejected \<Rightarrow> st
                  | Responded status None \<Rightarrow> st
                  | Responded status (Some d) \<Rightarrow> hideTypingIndicator st))
            @ [parsed_div parse (str ''message bot-message'') fallback_text []])
     \<and> (throws result \<and> count_id (str ''typingIndicator'') (parse fallback_text) = 0 \<longrightarrow>
          indicator_count st' \<le> indicator_count st - 1
          \<and> (indicator_count st \<le> 1 \<longrightarrow> indicator_count st' = 0))"
proof -
  let ?st1 = "case result of
      Rejected \<Rightarrow> st
    | Responded status None \<Rightarrow> st
    | Responded status (Some d) \<Rightarrow> hideTypingIndicator st"
  let ?e = "case result of
      Rejected \<Rightarrow> FetchRejected
    | Responded status None \<Rightarrow> BodyNotJSON
    | Responded status (Some d) \<Rightarrow> TypeError"
  have caught: "st' = catch_block parse ?e ?st1" if "throws result"
    using that assms by (simp add: resume_throws)
  have h1: "chatHistory ?st1 = chatHistory st"
    by (simp add: hideTypingIndicator_eq split: outcome.splits option.splits)
  have le1: "indicator_count ?st1 \<le> indicator_count st"
    by (simp add: indicator_count_hide_le split: outcome.splits option.splits)
  have a: "chatHistory st' = chatHistory st" if "throws result"
    using caught [OF that] h1 by (simp add: catch_block_eq)
  have b: "chatHistory st' \<noteq> chatHistory st" if "\<not> throws result"
    using resume_succeeds [OF that, of parse message now st] assms by auto
  have c: "chatMessages st' =
      chatMessages (hideTypingIndicator ?st1)
      @ [parsed_div parse (str ''message bot-message'') fallback_text []]"
    if "throws result"
    using caught [OF that] by (simp add: catch_block_eq hideTypingIndicator_eq)
  have d: "indicator_count st' \<le> indicator_count st - 1
      \<and> (indicator_count st \<le> 1 \<longrightarrow> indicator_count st' = 0)"
    if "throws result" and "count_id (str ''typingIndicator'') (parse fallback_text) = 0"
  proof -
    from caught [OF that(1)] that(2)
    have eq: "indicator_count st' = indicator_count (hideTypingIndicator ?st1)"
      by (simp add: catch_block_indicator_count)
    have "indicator_count (hideTypingIndicator ?st1) \<le> indicator_count ?st1 - 1"
    proof (cases "indicator_count ?st1 = 0")
      case True
      then show ?thesis
        by (simp add: hide_absent)
    next
      case False
      then have "indicator_count (hideTypingIndicator ?st1) < indicator_count ?st1"
        by (simp add: indicator_count_hide)
      then show ?thesis
        by simp
    qed
    with le1 eq have "indicator_count st' \<le> indicator_count st - 1"
      by simp
    then show ?thesis
      by auto
  qed
  from a b c d show ?thesis
    by blast
qed

theorem failure_path_witness:
  "throws Rejected
   \<and> throws (Responded 200 (Some \<lparr>data_text = None, data_type = None, data_books = None,
                                   data_suggestions = None\<rparr>))
   \<and> count_id (str ''typingIndicator'') (sample_parser fallback_text) = 0
   \<and> indicator_count (showTypingIndicator blank_page) = 1
   \<and> chatHistory (sendMessage_resume sample_parser (str ''hello'') (str ''t'') Rejected
         (showTypingIndicator blank_page)) = []
   \<and> chatMessages (sendMessage_resume sample_parser (str ''hello'') (str ''t'') Rejected
         (showTypingIndicator blank_page)) =
       [div_element (str ''message bot-message'') fallback_text []]
   \<and> indicator_count (sendMessage_resume sample_parser (str ''hello'') (str ''t'') Rejected
         (showTypingIndicator blank_page)) = 0
   \<and> chatMessages (sendMessage_resume sample_parser (str ''hello'') (str ''t'')
         (Responded 200 (Some \<lparr>data_text = None, data_type = None, data_books = None,
                                data_suggestions = None\<rparr>))
         (showTypingIndicator blank_page)) =
       [div_element (str ''message bot-message'') fallback_text []]"
proof -
  let ?st = "showTypingIndicator blank_page"
  let ?d = "\<lparr>data_text = None, data_type = None, data_books = None, data_suggestions = None\<rparr>"
  have t1: "throws Rejected"
    by (simp add: throws_def)
  have t2: "throws (Responded 200 (Some ?d))"
    by (simp add: throws_def or_string_def truthy_def)
  have p: "count_id (str ''typingIndicator'') (sample_parser fallback_text) = 0"
    by simp
  have "indicator_count blank_page = 0"
    by (simp add: indicator_count_def blank_page_def)
  then have one: "indicator_count ?st = 1"
    by (simp add: indicator_count_show)
  have gone: "hideTypingIndicator ?st = blank_page"
    by (simp add: hideTypingIndicator_eq showTypingIndicator_def blank_page_def typingDiv_def
          set_props_def createElement_def)
  have still: "hideTypingIndicator blank_page = blank_page"
    by (simp add: hideTypingIndicator_eq blank_page_def)
  have m: "chatMessages blank_page = []" and h: "chatHistory ?st = []"
    by (simp_all add: showTypingIndicator_def blank_page_def)
  from failure_path [of _ sample_parser "str ''hello''" "str ''t''" Rejected ?st, OF refl]
    t1 p one gone h m
  have a: "chatHistory (sendMessage_resume sample_parser (str ''hello'') (str ''t'') Rejected ?st)
      = []"
    and b: "chatMessages (sendMessage_resume sample_parser (str ''hello'') (str ''t'') Rejected ?st)
      = [div_element (str ''message bot-message'') fallback_text []]"
    and c: "indicator_count (sendMessage_resume sample_parser (str ''hello'') (str ''t'') Rejected
      ?st) = 0"
    by simp_all
  from failure_path [of _ sample_parser "str ''hello''" "str ''t''" "Responded 200 (Some ?d)" ?st,
      OF refl] t2 gone still m
  have d: "chatMessages (sendMessage_resume sample_parser (str ''hello'') (str ''t'')
         (Responded 200 (Some ?d)) ?st) =
       [div_element (str ''message bot-message'') fallback_text []]"
    by simp
  from t1 t2 p one a b c d show ?thesis
    by simp
qed

lemma send_hello:
  "sendMessage parse (type_text (str ''hello'') st) =
     st\<lparr>chatMessages := chatMessages st
           @ [parsed_div parse (str ''message user-message'') (str ''hello'') [], typingDiv],
        messageInput := [],
        pending := pending st
           @ [(message_request (str ''hello''), AwaitMessage (str ''hello''))]\<rparr>"
proof -
  have "trim (messageInput (type_text (str ''hello'') st)) = str ''hello''"
    by (simp add: type_text_def trim_hello)
  then show ?thesis
    by (simp add: sendMessage_nonblank replace_newlines_hello type_text_def)
qed

lemma settle_hello:
  "settle parse (length (pending st)) result now
       (sendMessage parse (type_text (str ''hello'') st)) =
     sendMessage_resume parse (str ''hello'') now result
       (st\<lparr>chatMessages := chatMessages st
             @ [parsed_div parse (str ''message user-message'') (str ''hello'') [], typingDiv],
           messageInput := []\<rparr>)"
proof -
  let ?st1 = "sendMessage parse (type_text (str ''hello'') st)"
  have "pending ?st1 =
      pending st @ [(message_request (str ''hello''), AwaitMessage (str ''hello''))]"
    by (simp add: send_hello)
  then have "settle parse (length (pending st)) result now ?st1 =
      sendMessage_resume parse (str ''hello'') now result (?st1\<lparr>pending := pending st\<rparr>)"
    by (simp add: settle_appended)
  then show ?thesis
    by (simp add: send_hello)
qed

lemma remove_indicator_after_entry:
  assumes "count_id (str ''typingIndicator'') es = 0"
    and "count_id (str ''typingIndicator'') kids = 0"
  shows "remove_first (str ''typingIndicator'') (es @ [div_element cls html kids, typingDiv]) =
     es @ [div_element cls html kids]"
proof -
  from assms have "getElementById (str ''typingIndicator'') es = None"
    and "getElementById (str ''typingIndicator'') kids = None"
    by (simp_all add: getElementById_None_iff)
  then show ?thesis
    by (simp add: remove_first_append typingDiv_def set_props_def createElement_def)
qed

theorem status_ignored_counterexample:
  "chatHistory (settle sample_parser 0
       (Responded 500
          (Some \<lparr>data_text = Some (str ''Internal Server Error''), data_type = None,
                 data_books = None, data_suggestions = None\<rparr>))
       (str ''2026-11-02T09:00:00.000Z'')
       (sendMessage sample_parser (type_text (str ''hello'') blank_page))) =
     [\<lparr>user = str ''hello'', bot = Some (str ''Internal Server Error''),
       timestamp = str ''2026-11-02T09:00:00.000Z''\<rparr>]
   \<and> chatMessages (settle sample_parser 0
       (Responded 500
          (Some \<lparr>data_text = Some (str ''Internal Server Error''), data_type = None,
                 data_books = None, data_suggestions = None\<rparr>))
       (str ''2026-11-02T09:00:00.000Z'')
       (sendMessage sample_parser (type_text (str ''hello'') blank_page))) =
     [div_element (str ''message user-message'') (str ''hello'') [],
      div_element (str ''message bot-message'') (str ''Internal Server Error'') []]
   \<and> (\<forall>parse.
         chatHistory (settle parse 0
           (Responded 200
              (Some \<lparr>data_text = None, data_type = Some (str ''book_list''),
                     data_books = None, data_suggestions = None\<rparr>))
           (str ''2026-11-02T09:00:00.000Z'')
           (sendMessage parse (type_text (str ''hello'') blank_page))) =
         [\<lparr>user = str ''hello'', bot = None,
           timestamp = str ''2026-11-02T09:00:00.000Z''\<rparr>])"
proof -
  have p: "length (pending blank_page) = 0"
    by (simp add: blank_page_def)
  have r: "replace_newlines (str ''Internal Server Error'') = str ''Internal Server Error''"
    by (rule replace_newlines_id) (simp add: str_def)
  have np: "sample_parser (str ''Internal Server Error'') = []"
    by (rule sample_parser_plain) (simp add: injected_markup_def)
  have gone: "hideTypingIndicator
      \<lparr>chatHistory = [],
       chatMessages = [div_element (str ''message user-message'') (str ''hello'') [], typingDiv],
       messageInput = [], console = [], pending = [], timers = []\<rparr> =
      \<lparr>chatHistory = [],
       chatMessages = [div_element (str ''message user-message'') (str ''hello'') []],
       messageInput = [], console = [], pending = [], timers = []\<rparr>"
    by (simp add: hideTypingIndicator_eq typingDiv_def set_props_def createElement_def)
  have first: "chatHistory (settle sample_parser 0
       (Responded 500
          (Some \<lparr>data_text = Some (str ''Internal Server Error''), data_type = None,
                 data_books = None, data_suggestions = None\<rparr>))
       (str ''2026-11-02T09:00:00.000Z'')
       (sendMessage sample_parser (type_text (str ''hello'') blank_page))) =
     [\<lparr>user = str ''hello'', bot = Some (str ''Internal Server Error''),
       timestamp = str ''2026-11-02T09:00:00.000Z''\<rparr>]
   \<and> chatMessages (settle sample_parser 0
       (Responded 500
          (Some \<lparr>data_text = Some (str ''Internal Server Error''), data_type = None,
                 data_books = None, data_suggestions = None\<rparr>))
       (str ''2026-11-02T09:00:00.000Z'')
       (sendMessage sample_parser (type_text (str ''hello'') blank_page))) =
     [div_element (str ''message user-message'') (str ''hello'') [],
      div_element (str ''message bot-message'') (str ''Internal Server Error'') []]"
    using settle_hello [of sample_parser blank_page _ "str ''2026-11-02T09:00:00.000Z''"]
    by (simp add: p sendMessage_resume_def gone addMessage_text r np or_string_def or_array_def
          truthy_def blank_page_def Let_def)
  have second: "chatHistory (settle parse 0
           (Responded 200
              (Some \<lparr>data_text = None, data_type = Some (str ''book_list''),
                     data_books = None, data_suggestions = None\<rparr>))
           (str ''2026-11-02T09:00:00.000Z'')
           (sendMessage parse (type_text (str ''hello'') blank_page))) =
         [\<lparr>user = str ''hello'', bot = None,
           timestamp = str ''2026-11-02T09:00:00.000Z''\<rparr>]" for parse
  proof -
    let ?r = "Responded 200
        (Some \<lparr>data_text = None, data_type = Some (str ''book_list''), data_books = None,
               data_suggestions = None\<rparr>)"
    have "\<not> throws ?r"
      by (simp add: throws_def or_string_def truthy_def to_string_def)
    from resume_succeeds [OF this]
    have "chatHistory (sendMessage_resume parse (str ''hello'')
          (str ''2026-11-02T09:00:00.000Z'') ?r st) =
        chatHistory st
        @ [\<lparr>user = str ''hello'', bot = None, timestamp = str ''2026-11-02T09:00:00.000Z''\<rparr>]"
      for st
      by auto
    with settle_hello [of parse blank_page ?r "str ''2026-11-02T09:00:00.000Z''"] p
    show ?thesis
      by (simp add: blank_page_def)
  qed
  from first second show ?thesis
    by blast
qed

text \<open>
  C2, as the script has it. Let \<^verbatim>\<open>hello\<close> be submitted while no element of the transcript
  carries the indicator's id and no earlier \<^verbatim>\<open>sendMessage\<close> is waiting for its response, and
  let its request fail in transport (the fetch rejects, or the body cannot be decoded) before
  anything else happens. The browser finding no element with that id in the text
  \<^verbatim>\<open>hello\<close> nor in the fallback text, afterwards no indicator is shown, the transcript has
  gained the user's entry followed by exactly one fallback message, the controller is idle
  again, and the history is what it was.
\<close>

theorem transport_failure_after_hello:
  assumes "indicator_count st = 0"
    and "conversation_state st = Idle"
    and "count_id (str ''typingIndicator'') (parse (str ''hello'')) = 0"
    and "count_id (str ''typingIndicator'') (parse fallback_text) = 0"
    and "result = Rejected \<or> result = Responded status None"
    and "st' = settle parse (length (pending st)) result now
                 (sendMessage parse (type_text (str ''hello'') st))"
  shows "indicator_count st' = 0
     \<and> chatMessages st' =
         chatMessages st
         @ [parsed_div parse (str ''message user-message'') (str ''hello'') [],
            parsed_div parse (str ''message bot-message'') fallback_text []]
     \<and> conversation_state st' = Idle
     \<and> chatHistory st' = chatHistory st"
proof -
  let ?st1 = "st\<lparr>chatMessages := chatMessages st
      @ [parsed_div parse (str ''message user-message'') (str ''hello'') [], typingDiv],
      messageInput := []\<rparr>"
  let ?e = "if result = Rejected then FetchRejected else BodyNotJSON"
  from assms(6) have "st' = sendMessage_resume parse (str ''hello'') now result ?st1"
    by (simp add: settle_hello)
  with assms(5) have "st' = catch_block parse ?e ?st1"
    by (auto simp add: sendMessage_resume_def)
  with assms(1,3) have st': "st' =
      st\<lparr>chatMessages := chatMessages st
            @ [parsed_div parse (str ''message user-message'') (str ''hello'') [],
               parsed_div parse (str ''message bot-message'') fallback_text []],
          messageInput := [],
          console := console st @ [[LogText (str ''Error:''), LogError ?e]]\<rparr>"
    by (simp add: catch_block_eq remove_indicator_after_entry indicator_count_def)
  from assms(1,3,4) have "indicator_count st' = 0"
    by (simp add: st' indicator_count_def count_id_append)
  moreover from assms(2) have "conversation_state st' = Idle"
    by (simp add: st' conversation_state_def)
  ultimately show ?thesis
    by (simp add: st')
qed

theorem transport_failure_after_hello_witness:
  "indicator_count blank_page = 0
   \<and> conversation_state blank_page = Idle
   \<and> count_id (str ''typingIndicator'') (sample_parser (str ''hello'')) = 0
   \<and> count_id (str ''typingIndicator'') (sample_parser fallback_text) = 0
   \<and> indicator_count (settle sample_parser 0 Rejected (str ''t'')
        (sendMessage sample_parser (type_text (str ''hello'') blank_page))) = 0
   \<and> chatMessages (settle sample_parser 0 Rejected (str ''t'')
        (sendMessage sample_parser (type_text (str ''hello'') blank_page))) =
       [div_element (str ''message user-message'') (str ''hello'') [],
        div_element (str ''message bot-message'') fallback_text []]
   \<and> conversation_state (settle sample_parser 0 Rejected (str ''t'')
        (sendMessage sample_parser (type_text (str ''hello'') blank_page))) = Idle
   \<and> chatHistory (settle sample_parser 0 Rejected (str ''t'')
        (sendMessage sample_parser (type_text (str ''hello'') blank_page))) = []"
proof -
  have z: "indicator_count blank_page = 0"
    by (simp add: indicator_count_def blank_page_def)
  have i: "conversation_state blank_page = Idle"
    by (simp add: conversation_state_def blank_page_def)
  have h1: "count_id (str ''typingIndicator'') (sample_parser (str ''hello'')) = 0"
    and h2: "count_id (str ''typingIndicator'') (sample_parser fallback_text) = 0"
    by simp_all
  have p: "length (pending blank_page) = 0" and c: "chatMessages blank_page = []"
    and h: "chatHistory blank_page = []"
    by (simp_all add: blank_page_def)
  from transport_failure_after_hello [OF z i h1 h2 _ refl, of Rejected 0 "str ''t''"] z i
  show ?thesis
    by (simp add: p c h)
qed

lemma trim_x: "trim (str ''x'') = str ''x''"
  by (simp add: trim_def str_def is_white_space_def)

lemma replace_newlines_x: "replace_newlines (str ''x'') = str ''x''"
  by (rule replace_newlines_id) (simp add: str_def)

lemma replace_newlines_ok: "replace_newlines (str ''ok'') = str ''ok''"
  by (rule replace_newlines_id) (simp add: str_def)

lemma trim_injected: "trim injected_markup = injected_markup"
  by (simp add: trim_def injected_markup_def str_def is_white_space_def)

lemma replace_newlines_injected: "replace_newlines injected_markup = injected_markup"
  by (rule replace_newlines_id) (simp add: injected_markup_def str_def)

lemma str_eq_injected [simp]:
  \<open>str s = injected_markup \<longleftrightarrow> s = ''<i id="typingIndicator"></i>''\<close>
  by (simp add: injected_markup_def)

lemma injected_neq [simp]: "injected_markup \<noteq> []" "fallback_text \<noteq> injected_markup"
  by (simp_all add: injected_markup_def fallback_text_def)

lemmas scenario =
  type_text_def sendMessage_def addMessage_text showTypingIndicator_def settle_def
  remove_nth_def sendMessage_resume_def catch_block_eq hideTypingIndicator_eq typingDiv_def
  set_props_def createElement_def indicator_count_def conversation_state_def blank_page_def
  Let_def trim_x trim_hello replace_newlines_x replace_newlines_hello trim_injected
  replace_newlines_injected replace_newlines_ok sample_parser_def or_string_def or_array_def
  truthy_def after_injection_def

theorem overlapping_send_counterexample:
  "indicator_count
       (settle sample_parser 0 Rejected (str ''2026-11-02T09:00:00.000Z'')
          (sendMessage sample_parser (type_text (str ''x'')
             (sendMessage sample_parser (type_text (str ''hello'') blank_page))))) = 1
   \<and> conversation_state
       (settle sample_parser 0 Rejected (str ''2026-11-02T09:00:00.000Z'')
          (sendMessage sample_parser (type_text (str ''x'')
             (sendMessage sample_parser (type_text (str ''hello'') blank_page)))))
       = AwaitingResponse
   \<and> conversation_state after_injection = Idle
   \<and> indicator_count
       (settle sample_parser 0 Rejected (str ''2026-11-02T09:00:00.000Z'')
          (sendMessage sample_parser (type_text (str ''hello'') after_injection))) = 1"
  by (simp add: scenario)

section \<open>Book lists\<close>

lemma addMessage_book_list:
  "addMessage parse text isUser (str ''book_list'') books suggestions st =
     Inr ((if suggestions = [] then id else addSuggestions suggestions)
       (st\<lparr>chatMessages := chatMessages st
             @ [parsed_div parse (str ''message '' @ (if isUser then str ''user-message''
                                                  else str ''bot-message''))
                  (str ''<strong>'' @ to_string text @ str ''</strong>'')
                  (map (bookCard parse) books)]\<rparr>))"
  by (simp add: addMessage_def foldl_appendChild set_innerHTML_def set_props_def
        createElement_def)

text \<open>
  C5, as the script has it. A \<^verbatim>\<open>book_list\<close> message is rendered as one entry whose markup is
  the heading and whose children are what the browser makes of the heading, then the cards of
  \<^verbatim>\<open>books\<close>, one per book and in order; the suggestion panel follows the entry when there are
  suggestions. A card holds the markup below and what the browser makes of it: the title and the
  author; it shows the genre exactly when the genre is there and not the empty string, and the
  rating, as \<^verbatim>\<open>rating/5\<close>, exactly when the rating is there and neither zero nor NaN. For the
  books Dune (rating 5) and 1984 (no rating) the entry has these two cards in this order, and
  the second has no rating line.
\<close>

theorem book_list_rendering:
  \<open>addMessage parse text isUser (str ''book_list'') books suggestions st =
     Inr ((if suggestions = [] then id else addSuggestions suggestions)
       (st\<lparr>chatMessages := chatMessages st
             @ [parsed_div parse (str ''message '' @ (if isUser then str ''user-message''
                                                  else str ''bot-message''))
                  (str ''<strong>'' @ to_string text @ str ''</strong>'')
                  (map (bookCard parse) books)]\<rparr>))
   \<and> bookCard parse book =
       parsed_div parse (str ''book-card'')
         (newline @ indent 24 @ str ''<div class="book-title">'' @ to_string (title book)
            @ str ''</div>''
          @ newline @ indent 24 @ str ''<div class="book-author">by '' @ to_string (author book)
            @ str ''</div>''
          @ newline @ indent 24 @ genre_html book
          @ newline @ indent 24 @ rating_html book
          @ newline @ indent 20) []
   \<and> genre_html book =
       (case genre book of
          None \<Rightarrow> []
        | Some g \<Rightarrow>
            if g = [] then []
            else str ''<div style="color: #667eea; font-size: 12px; margin: 5px 0;">'' @ g
                 @ str ''</div>'')
   \<and> rating_html book =
       (case rating book of
          None \<Rightarrow> []
        | Some r \<Rightarrow>
            if num_text r = str ''0'' \<or> num_text r = str ''NaN'' then []
            else str ''<div class="book-rating">'' @ [0x2B50] @ str '' '' @ num_text r
                 @ str ''/5</div>'')
   \<and> addMessage parse (Some (str ''Here are some books:'')) False (str ''book_list'')
         [\<lparr>title = Some (str ''Dune''), author = Some (str ''Frank Herbert''), genre = None,
           rating = Some (Number (str ''5''))\<rparr>,
          \<lparr>title = Some (str ''1984''), author = Some (str ''George Orwell''), genre = None,
           rating = None\<rparr>]
         [] blank_page =
       Inr (blank_page\<lparr>chatMessages :=
         [parsed_div parse (str ''message bot-message'') (str ''<strong>Here are some books:</strong>'')
            [parsed_div parse (str ''book-card'')
               (newline @ indent 24 @ str ''<div class="book-title">Dune</div>''
                @ newline @ indent 24 @ str ''<div class="book-author">by Frank Herbert</div>''
                @ newline @ indent 24
                @ newline @ indent 24 @ str ''<div class="book-rating">'' @ [0x2B50]
                  @ str '' 5/5</div>''
                @ newline @ indent 20) [],
             parsed_div parse (str ''book-card'')
               (newline @ indent 24 @ str ''<div class="book-title">1984</div>''
                @ newline @ indent 24 @ str ''<div class="book-author">by George Orwell</div>''
                @ newline @ indent 24
                @ newline @ indent 24
                @ newline @ indent 20) []]]\<rparr>)\<close>
proof -
  have card: \<open>bookCard parse book =
       parsed_div parse (str ''book-card'')
         (newline @ indent 24 @ str ''<div class="book-title">'' @ to_string (title book)
            @ str ''</div>''
          @ newline @ indent 24 @ str ''<div class="book-author">by '' @ to_string (author book)
            @ str ''</div>''
          @ newline @ indent 24 @ genre_html book
          @ newline @ indent 24 @ rating_html book
          @ newline @ indent 20) []\<close>
    by (simp add: bookCard_def card_html_def set_innerHTML_def set_props_def createElement_def)
  have g: \<open>genre_html book =
       (case genre book of
          None \<Rightarrow> []
        | Some g \<Rightarrow>
            if g = [] then []
            else str ''<div style="color: #667eea; font-size: 12px; margin: 5px 0;">'' @ g
                 @ str ''</div>'')\<close>
    by (simp add: genre_html_def truthy_def to_string_def split: option.splits)
  have r: \<open>rating_html book =
       (case rating book of
          None \<Rightarrow> []
        | Some r \<Rightarrow>
            if num_text r = str ''0'' \<or> num_text r = str ''NaN'' then []
            else str ''<div class="book-rating">'' @ [0x2B50] @ str '' '' @ num_text r
                 @ str ''/5</div>'')\<close>
    by (simp add: rating_html_def truthy_number_def number_to_string_def split: option.splits)
  have dune: \<open>bookCard parse \<lparr>title = Some (str ''Dune''), author = Some (str ''Frank Herbert''),
        genre = None, rating = Some (Number (str ''5''))\<rparr> =
      parsed_div parse (str ''book-card'')
        (newline @ indent 24 @ str ''<div class="book-title">Dune</div>''
         @ newline @ indent 24 @ str ''<div class="book-author">by Frank Herbert</div>''
         @ newline @ indent 24
         @ newline @ indent 24 @ str ''<div class="book-rating">'' @ [0x2B50]
           @ str '' 5/5</div>''
         @ newline @ indent 20) []\<close>
    by (simp add: bookCard_def card_html_def genre_html_def rating_html_def truthy_def
          truthy_number_def number_to_string_def to_string_def set_innerHTML_def set_props_def
          createElement_def)
       (simp add: str_def)
  have orwell: \<open>bookCard parse \<lparr>title = Some (str ''1984''), author = Some (str ''George Orwell''),
        genre = None, rating = None\<rparr> =
      parsed_div parse (str ''book-card'')
        (newline @ indent 24 @ str ''<div class="book-title">1984</div>''
         @ newline @ indent 24 @ str ''<div class="book-author">by George Orwell</div>''
         @ newline @ indent 24
         @ newline @ indent 24
         @ newline @ indent 20) []\<close>
    by (simp add: bookCard_def card_html_def genre_html_def rating_html_def truthy_def
          truthy_number_def number_to_string_def to_string_def set_innerHTML_def set_props_def
          createElement_def)
       (simp add: str_def)
  have heading: "str ''<strong>'' @ to_string (Some (str ''Here are some books:''))
        @ str ''</strong>'' = str ''<strong>Here are some books:</strong>''"
    by (simp add: to_string_def str_def)
  have example: \<open>addMessage parse (Some (str ''Here are some books:'')) False (str ''book_list'')
         [\<lparr>title = Some (str ''Dune''), author = Some (str ''Frank Herbert''), genre = None,
           rating = Some (Number (str ''5''))\<rparr>,
          \<lparr>title = Some (str ''1984''), author = Some (str ''George Orwell''), genre = None,
           rating = None\<rparr>]
         [] blank_page =
       Inr (blank_page\<lparr>chatMessages :=
         [parsed_div parse (str ''message bot-message'') (str ''<strong>Here are some books:</strong>'')
            [parsed_div parse (str ''book-card'')
               (newline @ indent 24 @ str ''<div class="book-title">Dune</div>''
                @ newline @ indent 24 @ str ''<div class="book-author">by Frank Herbert</div>''
                @ newline @ indent 24
                @ newline @ indent 24 @ str ''<div class="book-rating">'' @ [0x2B50]
                  @ str '' 5/5</div>''
                @ newline @ indent 20) [],
             parsed_div parse (str ''book-card'')
               (newline @ indent 24 @ str ''<div class="book-title">1984</div>''
                @ newline @ indent 24 @ str ''<div class="book-author">by George Orwell</div>''
                @ newline @ indent 24
                @ newline @ indent 24
                @ newline @ indent 20) []]]\<rparr>)\<close>
    by (simp only: addMessage_book_list dune orwell heading list.map if_True if_False id_apply
          message_class)
       (simp add: blank_page_def)
  from addMessage_book_list [of parse "text" isUser books suggestions st] card g r example
  show ?thesis
    by (intro conjI)
qed

theorem zero_rating_counterexample:
  \<open>rating \<lparr>title = Some (str ''Dune''), author = Some (str ''Frank Herbert''), genre = None,
           rating = Some (Number (str ''0''))\<rparr> = Some (Number (str ''0''))
   \<and> (\<forall>parse.
        addMessage parse (Some (str ''Top rated books:'')) False (str ''book_list'')
          [\<lparr>title = Some (str ''Dune''), author = Some (str ''Frank Herbert''), genre = None,
            rating = Some (Number (str ''0''))\<rparr>]
          [] blank_page =
        Inr (blank_page\<lparr>chatMessages :=
          [parsed_div parse (str ''message bot-message'')
             (str ''<strong>Top rated books:</strong>'')
             [parsed_div parse (str ''book-card'')
                (newline @ indent 24 @ str ''<div class="book-title">Dune</div>''
                 @ newline @ indent 24 @ str ''<div class="book-author">by Frank Herbert</div>''
                 @ newline @ indent 24
                 @ newline @ indent 24
                 @ newline @ indent 20) []]]\<rparr>))\<close>
proof -
  have card: \<open>bookCard parse \<lparr>title = Some (str ''Dune''), author = Some (str ''Frank Herbert''),
        genre = None, rating = Some (Number (str ''0''))\<rparr> =
      parsed_div parse (str ''book-card'')
        (newline @ indent 24 @ str ''<div class="book-title">Dune</div>''
         @ newline @ indent 24 @ str ''<div class="book-author">by Frank Herbert</div>''
         @ newline @ indent 24
         @ newline @ indent 24
         @ newline @ indent 20) []\<close> for parse
    by (simp add: bookCard_def card_html_def genre_html_def rating_html_def truthy_def
          truthy_number_def number_to_string_def to_string_def set_innerHTML_def set_props_def
          createElement_def)
       (simp add: str_def)
  have heading: "str ''<strong>'' @ to_string (Some (str ''Top rated books:''))
        @ str ''</strong>'' = str ''<strong>Top rated books:</strong>''"
    by (simp add: to_string_def str_def)
  show ?thesis
    by (simp only: addMessage_book_list card heading list.map if_True if_False id_apply
          message_class)
       (simp add: blank_page_def)
qed

section \<open>Suggestion chips\<close>

text \<open>
  C8. The panel that \<^verbatim>\<open>addSuggestions\<close> appends holds one chip per label, in order; the chip
  of a label shows that label, and clicking it does to any state what typing the label into
  the input field and pressing Enter does: both put the label into the field and run
  \<^verbatim>\<open>sendMessage\<close>.
\<close>

theorem chip_click_is_typed_enter:
  "children (last (chatMessages (addSuggestions labels st))) = map suggestion_chip labels
   \<and> textContent (props (suggestion_chip label)) = label
   \<and> click parse (suggestion_chip label) s
       = handleKeyPress parse (str ''Enter'') (type_text label s)"
  by (simp add: addSuggestions_eq suggestion_chip_def set_props_def createElement_def
        click_def handleKeyPress_def type_text_def)

section \<open>Welcome chips and the suggestion loader\<close>

lemma startup_eq:
  "startup st =
     st\<lparr>chatHistory := [],
        timers := timers st @ [\<lparr>delay = 500, callback = AddSuggestions welcome_suggestions\<rparr>],
        pending := pending st @ [(suggestions_request, AwaitSuggestions)]\<rparr>"
  by (simp add: startup_def setTimeout_def)

lemma settle_startup:
  "settle parse (length (pending st)) result now (startup st) =
     load_suggestions result
       (st\<lparr>chatHistory := [],
           timers := timers st @ [\<lparr>delay = 500, callback = AddSuggestions welcome_suggestions\<rparr>]\<rparr>)"
proof -
  have "pending (startup st) = pending st @ [(suggestions_request, AwaitSuggestions)]"
    by (simp add: startup_eq)
  then have "settle parse (length (pending st)) result now (startup st) =
      load_suggestions result (startup st\<lparr>pending := pending st\<rparr>)"
    by (simp add: settle_appended)
  then show ?thesis
    by (simp add: startup_eq)
qed

lemma chips_eq:
  "map suggestion_chip labels =
     map (\<lambda>label.
            Element \<lparr>tagName = str ''div'', className = str ''suggestion-chip'', elem_id = [],
              innerHTML = [], textContent = label, onclick = Some (ChipClick label)\<rparr> [])
       labels"
  by (simp add: suggestion_chip_def set_props_def createElement_def)

lemma fire_timer_at:
  assumes "i < length (timers st)" and "callback (timers st ! i) = AddSuggestions labels"
  shows "chatMessages (fire_timer i st) =
     chatMessages st
     @ [div_element (str ''suggestions'') []
          (map (\<lambda>label.
                  Element \<lparr>tagName = str ''div'', className = str ''suggestion-chip'',
                    elem_id = [], innerHTML = [], textContent = label,
                    onclick = Some (ChipClick label)\<rparr> [])
             labels)]"
  using assms by (simp add: fire_timer_def addSuggestions_eq chips_eq)

lemma load_suggestions_keeps:
  "chatMessages (load_suggestions result st) = chatMessages st"
  "take (length (timers st)) (timers (load_suggestions result st)) = timers st"
  by (simp_all add: load_suggestions_def setTimeout_def split: outcome.splits option.splits)

text \<open>
  C10. The top level of the script schedules, with a delay of 500 ms, a callback that
  appends one suggestion panel with the four welcome chips: four \<^verbatim>\<open>div\<close>s of class
  \<^verbatim>\<open>suggestion-chip\<close>, each showing its label and carrying the handler that puts this label
  into the input field and sends it. The callback does so whether it runs before the
  suggestion fetch has settled or after it, and whatever the result of the fetch was.
\<close>

theorem welcome_chips:
  "timers (startup st) =
     timers st
     @ [\<lparr>delay = 500,
         callback = AddSuggestions
           [str ''Recommend a fantasy book'', str ''Search for Stephen King'',
            str ''Show top rated books'', str ''What genres do you have?'']\<rparr>]
   \<and> chatMessages (fire_timer (length (timers st)) (startup st)) =
     chatMessages st
     @ [div_element (str ''suggestions'') []
          [Element \<lparr>tagName = str ''div'', className = str ''suggestion-chip'', elem_id = [],
             innerHTML = [], textContent = str ''Recommend a fantasy book'',
             onclick = Some (ChipClick (str ''Recommend a fantasy book''))\<rparr> [],
           Element \<lparr>tagName = str ''div'', className = str ''suggestion-chip'', elem_id = [],
             innerHTML = [], textContent = str ''Search for Stephen King'',
             onclick = Some (ChipClick (str ''Search for Stephen King''))\<rparr> [],
           Element \<lparr>tagName = str ''div'', className = str ''suggestion-chip'', elem_id = [],
             innerHTML = [], textContent = str ''Show top rated books'',
             onclick = Some (ChipClick (str ''Show top rated books''))\<rparr> [],
           Element \<lparr>tagName = str ''div'', className = str ''suggestion-chip'', elem_id = [],
             innerHTML = [], textContent = str ''What genres do you have?'',
             onclick = Some (ChipClick (str ''What genres do you have?''))\<rparr> []]]
   \<and> chatMessages
       (fire_timer (length (timers st))
          (settle parse (length (pending st)) result now (startup st))) =
     chatMessages st
     @ [div_element (str ''suggestions'') []
          [Element \<lparr>tagName = str ''div'', className = str ''suggestion-chip'', elem_id = [],
             innerHTML = [], textContent = str ''Recommend a fantasy book'',
             onclick = Some (ChipClick (str ''Recommend a fantasy book''))\<rparr> [],
           Element \<lparr>tagName = str ''div'', className = str ''suggestion-chip'', elem_id = [],
             innerHTML = [], textContent = str ''Search for Stephen King'',
             onclick = Some (ChipClick (str ''Search for Stephen King''))\<rparr> [],
           Element \<lparr>tagName = str ''div'', className = str ''suggestion-chip'', elem_id = [],
             innerHTML = [], textContent = str ''Show top rated books'',
             onclick = Some (ChipClick (str ''Show top rated books''))\<rparr> [],
           Element \<lparr>tagName = str ''div'', className = str ''suggestion-chip'', elem_id = [],
             innerHTML = [], textContent = str ''What genres do you have?'',
             onclick = Some (ChipClick (str ''What genres do you have?''))\<rparr> []]]"
proof -
  let ?w = "\<lparr>delay = 500, callback = AddSuggestions welcome_suggestions\<rparr>"
  let ?panel = "div_element (str ''suggestions'') []
      (map (\<lambda>label.
              Element \<lparr>tagName = str ''div'', className = str ''suggestion-chip'',
                elem_id = [], innerHTML = [], textContent = label,
                onclick = Some (ChipClick label)\<rparr> [])
         welcome_suggestions)"
  let ?st1 = "st\<lparr>chatHistory := [], timers := timers st @ [?w]\<rparr>"
  let ?st2 = "settle parse (length (pending st)) result now (startup st)"
  have a: "timers (startup st) = timers st @ [?w]"
    by (simp add: startup_eq)
  have b: "chatMessages (fire_timer (length (timers st)) (startup st)) =
      chatMessages (startup st) @ [?panel]"
    by (rule fire_timer_at) (simp_all add: a)
  have st2: "?st2 = load_suggestions result ?st1"
    by (rule settle_startup)
  have "take (length (timers ?st1)) (timers ?st2) = timers ?st1"
    by (simp only: st2 load_suggestions_keeps)
  then have tk: "take (Suc (length (timers st))) (timers ?st2) = timers st @ [?w]"
    by simp
  have len: "length (timers st) < length (timers ?st2)"
  proof -
    from tk have "length (take (Suc (length (timers st))) (timers ?st2)) = Suc (length (timers st))"
      by simp
    then show ?thesis by simp
  qed
  have "timers ?st2 ! length (timers st)
      = take (Suc (length (timers st))) (timers ?st2) ! length (timers st)"
    by simp
  also have "\<dots> = ?w"
    by (simp only: tk nth_append_length)
  finally have cb: "callback (timers ?st2 ! length (timers st)) = AddSuggestions welcome_suggestions"
    by simp
  have "chatMessages (fire_timer (length (timers st)) ?st2) = chatMessages ?st2 @ [?panel]"
    using len cb by (rule fire_timer_at)
  then have c: "chatMessages (fire_timer (length (timers st)) ?st2) = chatMessages st @ [?panel]"
    by (simp add: st2 load_suggestions_keeps)
  from a b c show ?thesis
    by (simp add: welcome_suggestions_def startup_eq)
qed

lemma loaded_panel:
  "chatMessages
       (fire_timer (Suc (length (timers st)))
          (settle parse (length (pending st)) (Responded status (Some d)) now (startup st))) =
     chatMessages st
     @ (case data_suggestions d of
          None \<Rightarrow> []
        | Some suggestions \<Rightarrow>
            if suggestions = [] then []
            else [div_element (str ''suggestions'') []
                    (map (\<lambda>label.
                         Element \<lparr>tagName = str ''div'', className = str ''suggestion-chip'',
                           elem_id = [], innerHTML = [], textContent = label,
                           onclick = Some (ChipClick label)\<rparr> [])
                       (take 4 suggestions))])"
  by (simp add: settle_startup load_suggestions_def setTimeout_def fire_timer_def
        remove_nth_def addSuggestions_eq chips_eq nth_append split: option.splits)

text \<open>
  C9. When the startup fetch yields a body, whatever its HTTP status, the loader schedules,
  with a delay of 1000 ms, one panel for the first four of its suggestions in order (all of
  them when there are fewer; nothing when the list is missing or empty). Once that timer has
  fired the transcript has gained exactly that panel: one \<^verbatim>\<open>div\<close> of class \<^verbatim>\<open>suggestion-chip\<close>
  per label, showing the label and carrying the handler that sends it, and never more than
  four of them; of the suggestions one to five the chips one to four are rendered. When the
  fetch rejects or the body cannot be decoded, the error is logged and neither a panel nor a
  timer is added.
\<close>

theorem startup_suggestions_loaded:
  "timers (settle parse (length (pending st)) (Responded status (Some d)) now (startup st)) =
     timers st
     @ [\<lparr>delay = 500, callback = AddSuggestions welcome_suggestions\<rparr>]
     @ (case data_suggestions d of
          None \<Rightarrow> []
        | Some suggestions \<Rightarrow>
            if suggestions = [] then []
            else [\<lparr>delay = 1000, callback = AddSuggestions (take 4 suggestions)\<rparr>])
   \<and> chatMessages
       (fire_timer (Suc (length (timers st)))
          (settle parse (length (pending st)) (Responded status (Some d)) now (startup st))) =
     chatMessages st
     @ (case data_suggestions d of
          None \<Rightarrow> []
        | Some suggestions \<Rightarrow>
            if suggestions = [] then []
            else [div_element (str ''suggestions'') []
                    (map (\<lambda>label.
                         Element \<lparr>tagName = str ''div'', className = str ''suggestion-chip'',
                           elem_id = [], innerHTML = [], textContent = label,
                           onclick = Some (ChipClick label)\<rparr> [])
                       (take 4 suggestions))])
   \<and> length (concat (map children (drop (length (chatMessages st))
         (chatMessages
            (fire_timer (Suc (length (timers st)))
               (settle parse (length (pending st)) (Responded status (Some d)) now
                  (startup st))))))) \<le> 4
   \<and> chatMessages
       (fire_timer (Suc (length (timers st)))
          (settle parse (length (pending st))
             (Responded status
                (Some \<lparr>data_text = None, data_type = None, data_books = None,
                   data_suggestions =
                     Some [str ''one'', str ''two'', str ''three'', str ''four'',
                           str ''five'']\<rparr>))
             now (startup st))) =
     chatMessages st
     @ [div_element (str ''suggestions'') []
          [Element \<lparr>tagName = str ''div'', className = str ''suggestion-chip'', elem_id = [],
             innerHTML = [], textContent = str ''one'',
             onclick = Some (ChipClick (str ''one''))\<rparr> [],
           Element \<lparr>tagName = str ''div'', className = str ''suggestion-chip'', elem_id = [],
             innerHTML = [], textContent = str ''two'',
             onclick = Some (ChipClick (str ''two''))\<rparr> [],
           Element \<lparr>tagName = str ''div'', className = str ''suggestion-chip'', elem_id = [],
             innerHTML = [], textContent = str ''three'',
             onclick = Some (ChipClick (str ''three''))\<rparr> [],
           Element \<lparr>tagName = str ''div'', className = str ''suggestion-chip'', elem_id = [],
             innerHTML = [], textContent = str ''four'',
             onclick = Some (ChipClick (str ''four''))\<rparr> []]]
   \<and> settle parse (length (pending st)) Rejected now (startup st) =
     st\<lparr>chatHistory := [],
        timers := timers st @ [\<lparr>delay = 500, callback = AddSuggestions welcome_suggestions\<rparr>],
        console := console st @ [[LogError FetchRejected]]\<rparr>
   \<and> settle parse (length (pending st)) (Responded status None) now (startup st) =
     st\<lparr>chatHistory := [],
        timers := timers st @ [\<lparr>delay = 500, callback = AddSuggestions welcome_suggestions\<rparr>],
        console := console st @ [[LogError BodyNotJSON]]\<rparr>"
proof -
  have t: "timers (settle parse (length (pending st)) (Responded status (Some d)) now
        (startup st)) =
     timers st
     @ [\<lparr>delay = 500, callback = AddSuggestions welcome_suggestions\<rparr>]
     @ (case data_suggestions d of
          None \<Rightarrow> []
        | Some suggestions \<Rightarrow>
            if suggestions = [] then []
            else [\<lparr>delay = 1000, callback = AddSuggestions (take 4 suggestions)\<rparr>])"
    by (simp add: settle_startup load_suggestions_def setTimeout_def split: option.splits)
  have n: "length (concat (map children (drop (length (chatMessages st))
         (chatMessages
            (fire_timer (Suc (length (timers st)))
               (settle parse (length (pending st)) (Responded status (Some d)) now
                  (startup st))))))) \<le> 4"
    by (simp add: loaded_panel split: option.splits)
  have five: "chatMessages
       (fire_timer (Suc (length (timers st)))
          (settle parse (length (pending st))
             (Responded status
                (Some \<lparr>data_text = None, data_type = None, data_books = None,
                   data_suggestions =
                     Some [str ''one'', str ''two'', str ''three'', str ''four'',
                           str ''five'']\<rparr>))
             now (startup st))) =
     chatMessages st
     @ [div_element (str ''suggestions'') []
          [Element \<lparr>tagName = str ''div'', className = str ''suggestion-chip'', elem_id = [],
             innerHTML = [], textContent = str ''one'',
             onclick = Some (ChipClick (str ''one''))\<rparr> [],
           Element \<lparr>tagName = str ''div'', className = str ''suggestion-chip'', elem_id = [],
             innerHTML = [], textContent = str ''two'',
             onclick = Some (ChipClick (str ''two''))\<rparr> [],
           Element \<lparr>tagName = str ''div'', className = str ''suggestion-chip'', elem_id = [],
             innerHTML = [], textContent = str ''three'',
             onclick = Some (ChipClick (str ''three''))\<rparr> [],
           Element \<lparr>tagName = str ''div'', className = str ''suggestion-chip'', elem_id = [],
             innerHTML = [], textContent = str ''four'',
             onclick = Some (ChipClick (str ''four''))\<rparr> []]]"
    by (simp add: loaded_panel)
  have b: "settle parse (length (pending st)) Rejected now (startup st) =
     st\<lparr>chatHistory := [],
        timers := timers st @ [\<lparr>delay = 500, callback = AddSuggestions welcome_suggestions\<rparr>],
        console := console st @ [[LogError FetchRejected]]\<rparr>"
    by (simp add: settle_startup load_suggestions_def)
  have c: "settle parse (length (pending st)) (Responded status None) now (startup st) =
     st\<lparr>chatHistory := [],
        timers := timers st @ [\<lparr>delay = 500, callback = AddSuggestions welcome_suggestions\<rparr>],
        console := console st @ [[LogError BodyNotJSON]]\<rparr>"
    by (simp add: settle_startup load_suggestions_def)
  from t loaded_panel n five b c show ?thesis
    by (intro conjI)
qed

section \<open>Defaults of a response body\<close>

text \<open>
  C6. A decoded body is handled exactly as the same body with its missing optional fields
  filled in: \<^verbatim>\<open>type\<close> with \<^verbatim>\<open>'text'\<close>, \<^verbatim>\<open>books\<close> and \<^verbatim>\<open>suggestions\<close> with the empty sequence. So
  a body that carries only a text is rendered as a plain-text bot entry and recorded.
\<close>

theorem defaults_applied:
  "sendMessage_resume parse message now (Responded status (Some d)) st =
     sendMessage_resume parse message now (Responded status (Some (apply_defaults d))) st
   \<and> sendMessage_resume parse message now
       (Responded status
          (Some \<lparr>data_text = Some t, data_type = None, data_books = None,
                 data_suggestions = None\<rparr>)) st =
     (hideTypingIndicator st)
       \<lparr>chatMessages := chatMessages (hideTypingIndicator st)
           @ [parsed_div parse (str ''message bot-message'') (replace_newlines t) []],
        chatHistory := chatHistory (hideTypingIndicator st)
           @ [\<lparr>user = message, bot = Some t, timestamp = now\<rparr>]\<rparr>"
proof -
  have a: "sendMessage_resume parse message now (Responded status (Some d)) st =
     sendMessage_resume parse message now (Responded status (Some (apply_defaults d))) st"
  proof -
    have "data_text (apply_defaults d) = data_text d"
      and "or_string (data_type (apply_defaults d)) (str ''text'')
           = or_string (data_type d) (str ''text'')"
      and "or_array (data_books (apply_defaults d)) [] = or_array (data_books d) []"
      and "or_array (data_suggestions (apply_defaults d)) []
           = or_array (data_suggestions d) []"
      by (simp_all add: apply_defaults_def or_string_def or_array_def truthy_def to_string_def
            split: option.splits)
    then show ?thesis
      by (simp add: sendMessage_resume_def cong: sum.case_cong)
  qed
  have b: "sendMessage_resume parse message now
       (Responded status
          (Some \<lparr>data_text = Some t, data_type = None, data_books = None,
                 data_suggestions = None\<rparr>)) st =
     (hideTypingIndicator st)
       \<lparr>chatMessages := chatMessages (hideTypingIndicator st)
           @ [parsed_div parse (str ''message bot-message'') (replace_newlines t) []],
        chatHistory := chatHistory (hideTypingIndicator st)
           @ [\<lparr>user = message, bot = Some t, timestamp = now\<rparr>]\<rparr>"
    by (simp add: sendMessage_resume_def or_string_def or_array_def truthy_def
          addMessage_text Let_def)
  from a b show ?thesis
    by (rule conjI)
qed

end
